theory Spec2Isabelle
  imports Main
begin

unbundle bit_operations_syntax

section \<open>Status values and critic flags\<close>

text \<open>
  The module constants \<^verbatim>\<open>PASS = 0\<close> and \<^verbatim>\<open>FAIL = 1\<close> of \<^verbatim>\<open>__main__.py\<close>.
\<close>

datatype status = PASS | FAIL

text \<open>
  Modelled from the spec: the flag constants \<^verbatim>\<open>CRITIC_IGNORE\<close>, \<^verbatim>\<open>CRITIC_ACCEPT\<close>,
  \<^verbatim>\<open>CRITIC_REJECT\<close>, \<^verbatim>\<open>CRITIC_VIEW\<close> and \<^verbatim>\<open>CRITIC_DUMP\<close> of the module \<^verbatim>\<open>lib.settings\<close>,
  which is not among the sources. The spec describes the critic mode as a set of
  independent flags combined by bitwise union; \<^verbatim>\<open>get_critic_mode\<close> starts from
  \<^verbatim>\<open>CRITIC_IGNORE\<close> and only adds flags to it, so Ignore is the empty set of flags and
  the four others are distinct bits. Python integers are unbounded: \<open>int\<close>.
\<close>

definition CRITIC_IGNORE :: int where "CRITIC_IGNORE = 0"
definition CRITIC_ACCEPT :: int where "CRITIC_ACCEPT = 1"
definition CRITIC_REJECT :: int where "CRITIC_REJECT = 2"
definition CRITIC_VIEW :: int where "CRITIC_VIEW = 4"
definition CRITIC_DUMP :: int where "CRITIC_DUMP = 8"

text \<open>
  The three attributes of the parsed command line that \<^verbatim>\<open>get_critic_mode\<close> reads
  (\<^verbatim>\<open>args.accept\<close>, \<^verbatim>\<open>args.reject\<close>, \<^verbatim>\<open>args.critic_dump\<close>; all three are
  \<^verbatim>\<open>store_true\<close> options, hence booleans).
\<close>

record args =
  accept :: bool
  reject :: bool
  critic_dump :: bool

text \<open>
  \<^verbatim>\<open>
  def get_critic_mode(args):
      critic_mode = settings.CRITIC_IGNORE
      if args.accept and args.reject:
          critic_mode |= settings.CRITIC_VIEW
      elif args.accept:
          critic_mode |= settings.CRITIC_ACCEPT
      elif args.reject:
          critic_mode |= settings.CRITIC_REJECT
      if args.critic_dump:
          critic_mode |= settings.CRITIC_DUMP
      return critic_mode
  \<close>
\<close>

definition get_critic_mode :: "args \<Rightarrow> int" where
  "get_critic_mode a =
     (let critic_mode = CRITIC_IGNORE;
          critic_mode =
            (if accept a \<and> reject a then critic_mode OR CRITIC_VIEW
             else if accept a then critic_mode OR CRITIC_ACCEPT
             else if reject a then critic_mode OR CRITIC_REJECT
             else critic_mode);
          critic_mode =
            (if critic_dump a then critic_mode OR CRITIC_DUMP else critic_mode)
      in critic_mode)"

text \<open>A flag is set in a mode when the bitwise conjunction is non-zero (Python truth).\<close>

definition flag_set :: "int \<Rightarrow> int \<Rightarrow> bool" where
  "flag_set mode flag \<longleftrightarrow> mode AND flag \<noteq> 0"

section \<open>Path functions of the standard library\<close>

text \<open>
  \<^verbatim>\<open>__main__.py\<close> imports \<^verbatim>\<open>os.path\<close> as \<^verbatim>\<open>path\<close>. The functions it calls are those
  of Python's \<^verbatim>\<open>posixpath\<close> (a POSIX platform is assumed), written out here on
  \<open>string\<close>.

  \<^verbatim>\<open>str.startswith\<close>, \<^verbatim>\<open>str.endswith\<close> and \<^verbatim>\<open>str.rfind\<close> (the highest index of the
  character, or -1).
\<close>

definition startswith :: "string \<Rightarrow> string \<Rightarrow> bool" where
  "startswith s p \<longleftrightarrow> take (length p) s = p"

definition endswith :: "string \<Rightarrow> string \<Rightarrow> bool" where
  "endswith s p \<longleftrightarrow> length p \<le> length s \<and> drop (length s - length p) s = p"

definition rfind :: "char \<Rightarrow> string \<Rightarrow> int" where
  "rfind c s =
     (if c \<in> set s
      then int (length s) - 1 - int (length (takeWhile (\<lambda>x. x \<noteq> c) (rev s)))
      else - 1)"

text \<open>
  \<^verbatim>\<open>
  def join(a, *p):
      path = a
      for b in p:
          if b.startswith('/'):
              path = b
          elif path == '' or path.endswith('/'):
              path += b
          else:
              path += '/' + b
      return path
  \<close>
  Every call in \<^verbatim>\<open>__main__.py\<close> that is modelled here has two arguments.
\<close>

definition path_join :: "string \<Rightarrow> string \<Rightarrow> string" where
  "path_join a b =
     (if startswith b ''/'' then b
      else if a = '''' \<or> endswith a ''/'' then a @ b
      else a @ ''/'' @ b)"

text \<open>\<^verbatim>\<open>str.split('/')\<close> and \<^verbatim>\<open>'/'.join(comps)\<close>.\<close>

fun split_sep :: "char \<Rightarrow> string \<Rightarrow> string list" where
  "split_sep c [] = [[]]"
| "split_sep c (x # xs) =
     (if x = c then [] # split_sep c xs
      else (case split_sep c xs of [] \<Rightarrow> [[x]] | y # ys \<Rightarrow> (x # y) # ys))"

fun join_sep :: "string \<Rightarrow> string list \<Rightarrow> string" where
  "join_sep sep [] = []"
| "join_sep sep [x] = x"
| "join_sep sep (x # y # ys) = x @ sep @ join_sep sep (y # ys)"

text \<open>
  \<^verbatim>\<open>
  def normpath(path):
      if path == '':
          return '.'
      initial_slashes = path.startswith('/')
      if (initial_slashes and
          path.startswith('//') and not path.startswith('///')):
          initial_slashes = 2
      comps = path.split('/')
      new_comps = []
      for comp in comps:
          if comp in ('', '.'):
              continue
          if (comp != '..' or (not initial_slashes and not new_comps) or
               (new_comps and new_comps[-1] == '..')):
              new_comps.append(comp)
          elif new_comps:
              new_comps.pop()
      comps = new_comps
      path = '/'.join(comps)
      if initial_slashes:
          path = '/'*initial_slashes + path
      return path or '.'
  \<close>
\<close>

definition initial_slashes :: "string \<Rightarrow> nat" where
  "initial_slashes p =
     (if \<not> startswith p ''/'' then 0
      else if startswith p ''//'' \<and> \<not> startswith p ''///'' then 2
      else 1)"

fun norm_comps :: "nat \<Rightarrow> string list \<Rightarrow> string list \<Rightarrow> string list" where
  "norm_comps ini new_comps [] = new_comps"
| "norm_comps ini new_comps (c # comps) =
     (if c = '''' \<or> c = ''.'' then norm_comps ini new_comps comps
      else if c \<noteq> ''..'' \<or> (ini = 0 \<and> new_comps = [])
              \<or> (new_comps \<noteq> [] \<and> last new_comps = ''..'')
      then norm_comps ini (new_comps @ [c]) comps
      else if new_comps \<noteq> [] then norm_comps ini (butlast new_comps) comps
      else norm_comps ini new_comps comps)"

definition normpath :: "string \<Rightarrow> string" where
  "normpath p =
     (if p = '''' then ''.''
      else
        (let ini = initial_slashes p;
             comps = norm_comps ini [] (split_sep CHR ''/'' p);
             path = join_sep ''/'' comps;
             path = (if ini \<noteq> 0 then replicate ini CHR ''/'' @ path else path)
         in if path = '''' then ''.'' else path))"

text \<open>
  \<^verbatim>\<open>
  def abspath(path):
      if not isabs(path):
          cwd = os.getcwd()
          path = join(cwd, path)
      return normpath(path)
  \<close>
  with \<^verbatim>\<open>isabs(path) = path.startswith('/')\<close>. The working directory is a parameter.
\<close>

definition abspath :: "string \<Rightarrow> string \<Rightarrow> string" where
  "abspath cwd p = normpath (if \<not> startswith p ''/'' then path_join cwd p else p)"

text \<open>
  \<^verbatim>\<open>
  def basename(p):
      i = p.rfind('/') + 1
      return p[i:]

  def dirname(p):
      i = p.rfind('/') + 1
      head = p[:i]
      if head and head != '/'*len(head):
          head = head.rstrip('/')
      return head
  \<close>
\<close>

definition basename :: "string \<Rightarrow> string" where
  "basename p = drop (nat (rfind CHR ''/'' p + 1)) p"

definition dirname :: "string \<Rightarrow> string" where
  "dirname p =
     (let head = take (nat (rfind CHR ''/'' p + 1)) p
      in if head \<noteq> '''' \<and> head \<noteq> replicate (length head) CHR ''/''
         then rev (dropWhile (\<lambda>x. x = CHR ''/'') (rev head))
         else head)"

text \<open>
  \<^verbatim>\<open>
  def splitext(p):                     # genericpath._splitext(p, '/', None, '.')
      sepIndex = p.rfind('/')
      dotIndex = p.rfind('.')
      if dotIndex > sepIndex:
          # skip all leading dots
          filenameIndex = sepIndex + 1
          while filenameIndex < dotIndex:
              if p[filenameIndex:filenameIndex+1] != '.':
                  return p[:dotIndex], p[dotIndex:]
              filenameIndex += 1
      return p, p[:0]
  \<close>
  The loop returns the split at the first index in \<open>[sepIndex + 1, dotIndex)\<close> whose
  character is not a dot, and falls through when there is none.
\<close>

definition splitext :: "string \<Rightarrow> string \<times> string" where
  "splitext p =
     (let sepIndex = rfind CHR ''/'' p;
          dotIndex = rfind CHR ''.'' p
      in if dotIndex > sepIndex
            \<and> list_ex (\<lambda>k. p ! k \<noteq> CHR ''.'') [nat (sepIndex + 1) ..< nat dotIndex]
         then (take (nat dotIndex) p, drop (nat dotIndex) p)
         else (p, ''''))"

section \<open>Title and metadata\<close>

text \<open>
  \<^verbatim>\<open>
  def get_title(file_name, title_val):
      if title_val is not None:
          title = str(title_val)
      elif file_name is not None:
          title = path.splitext(path.basename(path.abspath(file_name)))[0]
      else:
          title = None
      return title
  \<close>
  \<^verbatim>\<open>title_val\<close> is the \<^verbatim>\<open>--title\<close> option, a string or \<^verbatim>\<open>None\<close>; \<^verbatim>\<open>str\<close> leaves a
  string as it is.
\<close>

definition get_title :: "string \<Rightarrow> string option \<Rightarrow> string option \<Rightarrow> string option" where
  "get_title cwd file_name title_val =
     (case title_val of
        Some t \<Rightarrow> Some t
      | None \<Rightarrow>
          (case file_name of
             Some f \<Rightarrow> Some (fst (splitext (basename (abspath cwd f))))
           | None \<Rightarrow> None))"

text \<open>
  Metadata is a dictionary from string keys to values: a map. \<^verbatim>\<open>dict.update\<close> is
  \<open>++\<close>, in which the right operand wins.
  \<^verbatim>\<open>
  def merge_meta(meta1, meta2, title=None):
      meta = meta1.copy()
      meta.update(meta2)
      if "title" not in meta and title is not None:
          if title is not None:
              meta["title"] = title
      return meta
  \<close>
\<close>

definition merge_meta :: "(string \<rightharpoonup> 'v) \<Rightarrow> (string \<rightharpoonup> 'v) \<Rightarrow> 'v option \<Rightarrow> (string \<rightharpoonup> 'v)" where
  "merge_meta meta1 meta2 title =
     (let meta = meta1 ++ meta2
      in if ''title'' \<notin> dom meta \<and> title \<noteq> None
         then (case title of Some t \<Rightarrow> meta(''title'' \<mapsto> t) | None \<Rightarrow> meta)
         else meta)"

section \<open>Settings, effects and collaborators\<close>

text \<open>
  The values of a metadata dictionary: the title is a string, the markdown engine's
  \<^verbatim>\<open>meta\<close> extension yields lists of strings.
\<close>

datatype meta_value = MStr string | MList "string list"

type_synonym meta = "string \<rightharpoonup> meta_value"

text \<open>
  The front matter of a document, as \<^verbatim>\<open>get_frontmatter_string\<close> returns it and
  \<^verbatim>\<open>config.get\<close> receives it: an ordered mapping from keys to values. The default
  argument \<^verbatim>\<open>frontmatter={}\<close> of \<^verbatim>\<open>get_file_settings\<close> is the empty list.
\<close>

type_synonym frontmatter = "(string \<times> meta_value) list"

text \<open>
  The dictionary that \<^verbatim>\<open>config.get\<close> returns and \<^verbatim>\<open>get_file_settings\<close> stores in
  \<^verbatim>\<open>self.settings\<close>, with the keys that \<^verbatim>\<open>__main__.py\<close> reads: under \<^verbatim>\<open>"page"\<close> the keys
  \<^verbatim>\<open>destination\<close>, \<^verbatim>\<open>basepath\<close>, \<^verbatim>\<open>include\<close>, \<^verbatim>\<open>meta\<close> and (optional, read with
  \<^verbatim>\<open>.get("references", [])\<close>) \<^verbatim>\<open>references\<close>; under \<^verbatim>\<open>"settings"\<close> the key
  \<^verbatim>\<open>extensions\<close> and the optional keys read with \<^verbatim>\<open>.get(key, default)\<close>.
  A field name is also a constant, so the fields carry a prefix where the source uses
  the same name for a variable (\<open>page_\<close> for the keys under \<^verbatim>\<open>"page"\<close>, \<open>cfg_\<close> for the
  attributes of \<^verbatim>\<open>self.config\<close>, \<open>self_\<close> for those of the \<^verbatim>\<open>Convert\<close> instance,
  \<open>fs_page\<close> and \<open>fs_settings\<close> for the two keys of \<^verbatim>\<open>self.settings\<close>).
\<close>

record page_settings =
  page_destination :: "string option"
  page_basepath :: "string option"
  page_include :: "string list"
  page_meta :: meta
  page_references :: "string list option"

record md_settings =
  smart_emphasis :: "bool option"
  lazy_ol :: "bool option"
  tab_length :: "int option"
  enable_attributes :: "bool option"
  output_format :: "string option"
  extensions :: "string list"

record file_settings =
  fs_page :: page_settings
  fs_settings :: md_settings

text \<open>
  The attributes of \<^verbatim>\<open>self.config\<close> (an instance of \<^verbatim>\<open>settings.Settings\<close>, built in
  \<^verbatim>\<open>main\<close>) that the class \<^verbatim>\<open>Convert\<close> reads.
\<close>

record config =
  cfg_encoding :: string
  cfg_output_encoding :: string
  cfg_critic :: int
  cfg_is_stream :: bool
  cfg_preview :: bool
  cfg_plain :: bool
  cfg_clean :: bool
  cfg_relative_out :: "string option"

text \<open>
  The keyword arguments of \<^verbatim>\<open>formatter.Html(...)\<close> and of \<^verbatim>\<open>MdConverts(...)\<close> as
  \<^verbatim>\<open>html_dump\<close> passes them, and what \<^verbatim>\<open>html_dump\<close> reads of the converter after
  \<^verbatim>\<open>converter.convert()\<close>: \<^verbatim>\<open>converter.markdown\<close> and \<^verbatim>\<open>converter.meta\<close>.
\<close>

record html_args =
  html_destination :: "string option"
  html_preview :: bool
  html_plain :: bool
  html_settings :: md_settings
  html_basepath :: "string option"
  html_aliases :: "string list"
  html_encoding :: string

record md_args =
  md_text :: string
  md_smart_emphasis :: bool
  md_lazy_ol :: bool
  md_tab_length :: int
  md_base_path :: "string option"
  md_relative_output :: "string option"
  md_enable_attributes :: bool
  md_output_format :: string
  md_extensions :: "string list"

record md_result =
  markdown :: string
  md_meta :: meta

text \<open>
  Effects. The world is the trace of what the program has done so far, oldest first:
  messages given to \<^verbatim>\<open>logger.Log\<close>, the calls on the \<^verbatim>\<open>formatter.Text\<close> and
  \<^verbatim>\<open>formatter.Html\<close> objects (creation, \<^verbatim>\<open>set_meta\<close>, \<^verbatim>\<open>write\<close>, \<^verbatim>\<open>close\<close>) and
  \<^verbatim>\<open>auto_open\<close>. \<open>Enter_critic_dump\<close> and \<open>Enter_html_dump\<close> have no counterpart in
  the source: they record that the method was entered, with its two arguments, so that
  statements about which documents are processed can be made.
\<close>

datatype event =
    Log_error string
  | Log_info string
  | Enter_critic_dump "string option" "string option"
  | Enter_html_dump "string option" "string option"
  | Text_open "string option" string
  | Text_write string
  | Text_close
  | Html_open html_args
  | Html_set_meta meta
  | Html_write string
  | Html_close
  | Auto_open string

type_synonym world = "event list"

text \<open>Exceptions that leave a function of \<^verbatim>\<open>__main__.py\<close> uncaught.\<close>

datatype py_error = TypeError | AttributeError

text \<open>
  The collaborators: the modules \<^verbatim>\<open>lib.resources\<close>, \<^verbatim>\<open>lib.settings\<close>,
  \<^verbatim>\<open>lib.critic_dump\<close>, \<^verbatim>\<open>lib.formatter\<close>, \<^verbatim>\<open>lib.mdconvert\<close>, \<^verbatim>\<open>lib.frontmatter\<close> and
  \<^verbatim>\<open>lib.scrub\<close> are not among the sources, and the file system is outside the program.
  They are parameters of the model. What consults the outside world takes the trace so
  far, so that a result may depend on what the program has written before.
  \<^item> \<open>getcwd\<close>: \<^verbatim>\<open>os.getcwd()\<close>, read by \<^verbatim>\<open>path.abspath\<close>.
  \<^item> \<open>get_user_path\<close>, \<open>splitenc\<close> (entry and default encoding to file name and
    encoding), \<open>is_absolute\<close>: the functions of \<^verbatim>\<open>lib.resources\<close>.
  \<^item> \<open>load_text_resource\<close>: path and encoding to the text, or \<open>None\<close>
    (\<^verbatim>\<open>display_licenses\<close> tests its result against \<^verbatim>\<open>None\<close>).
  \<^item> \<open>path_exists\<close>, \<open>path_isfile\<close>: \<^verbatim>\<open>os.path.exists\<close>, \<^verbatim>\<open>os.path.isfile\<close>.
  \<^item> \<open>codecs_read\<close>: \<^verbatim>\<open>codecs.open(file_name, "r", encoding=...)\<close> followed by
    \<^verbatim>\<open>f.read()\<close>; \<open>None\<close> when either raises.
  \<^item> \<open>config_get\<close>: \<^verbatim>\<open>self.config.get(file_name, basepath=..., output=...,
    frontmatter=...)\<close>; \<open>Inl\<close> carries the text of \<^verbatim>\<open>traceback.format_exc()\<close> when it
    raises.
  \<^item> \<open>get_frontmatter_string\<close>: text to front matter and remaining text.
  \<^item> \<open>new_Text\<close>: whether \<^verbatim>\<open>formatter.Text(destination, encoding)\<close> returns (rather
    than raises).
  \<^item> \<open>CriticDump_dump\<close>: \<^verbatim>\<open>CriticDump().dump(text, accept, view)\<close>; the two flags are
    the integers \<^verbatim>\<open>critic & CRITIC_ACCEPT\<close> and \<^verbatim>\<open>critic & CRITIC_VIEW\<close>.
  \<^item> \<open>new_Html\<close>: \<^verbatim>\<open>formatter.Html(...)\<close>; \<open>Inr\<close> carries \<^verbatim>\<open>html.file.name\<close> of the
    object created, \<open>Inl\<close> the traceback text.
  \<^item> \<open>MdConverts\<close>: \<^verbatim>\<open>MdConverts(...)\<close> followed by \<^verbatim>\<open>converter.convert()\<close>.
  \<^item> \<open>scrub\<close>: \<^verbatim>\<open>scrub.scrub\<close>.
\<close>

record env =
  getcwd :: string
  get_user_path :: string
  splitenc :: "string \<Rightarrow> string \<Rightarrow> string \<times> string"
  is_absolute :: "string \<Rightarrow> bool"
  load_text_resource :: "world \<Rightarrow> string \<Rightarrow> string \<Rightarrow> string option"
  path_exists :: "world \<Rightarrow> string \<Rightarrow> bool"
  path_isfile :: "world \<Rightarrow> string \<Rightarrow> bool"
  codecs_read :: "world \<Rightarrow> string \<Rightarrow> string \<Rightarrow> string option"
  config_get ::
    "world \<Rightarrow> string option \<Rightarrow> string option \<Rightarrow> string option \<Rightarrow> frontmatter
      \<Rightarrow> string + file_settings"
  get_frontmatter_string :: "string \<Rightarrow> frontmatter \<times> string"
  new_Text :: "world \<Rightarrow> string option \<Rightarrow> string \<Rightarrow> bool"
  CriticDump_dump :: "string \<Rightarrow> int \<Rightarrow> int \<Rightarrow> string"
  new_Html :: "world \<Rightarrow> html_args \<Rightarrow> string + string option"
  MdConverts :: "world \<Rightarrow> md_args \<Rightarrow> string + md_result"
  scrub :: "string \<Rightarrow> string"

text \<open>
  The instance attributes of \<^verbatim>\<open>Convert\<close>. \<^verbatim>\<open>self.settings\<close> is assigned by
  \<^verbatim>\<open>get_file_settings\<close> only; it is \<open>None\<close> before the first assignment.
\<close>

record Convert =
  self_config :: config
  self_output :: "string option"
  self_basepath :: "string option"
  self_title :: "string option"
  self_settings_path :: "string option"
  self_settings :: "file_settings option"

section \<open>References\<close>

text \<open>
  \<^verbatim>\<open>
  def get_references(references, basepath, encoding):
      text = ''
      for file_name in references:
          file_name, encoding = res.splitenc(file_name, default=encoding)
          user_path = path.join(res.get_user_path(), file_name)

          is_abs = res.is_absolute(file_name)

          if not is_abs:
              # Is relative path
              base_temp = path.normpath(path.join(basepath, file_name)) if basepath is not None else None
              user_temp = path.normpath(path.join(user_path, file_name)) if user_path is not None else None
              if base_temp is not None and path.exists(base_temp) and path.isfile(base_temp):
                  ref_path = base_temp
              elif user_temp is not None and path.exists(user_temp) and path.isfile(user_temp):
                  ref_path = user_temp
              else:
                  # Is an unknown path
                  ref_path = None
          elif is_abs and path.exists(file_name) and path.isfile(file_name):
              # Is absolute path
              ref_path = file_name
          else:
              # Is an unknown path
              ref_path = None

          if ref_path is not None:
              text += res.load_text_resource(ref_path, encoding=encoding)
          else:
              logger.Log.error("Could not find reference file %s!" % file_name)
      return text
  \<close>
  \<open>ref_path\<close> is the choice of the path for one entry, after \<^verbatim>\<open>splitenc\<close>. The loop is
  \<open>get_references_loop\<close>, with the loop variables \<^verbatim>\<open>text\<close> and \<^verbatim>\<open>encoding\<close> (the
  encoding that \<^verbatim>\<open>splitenc\<close> returns for one entry is the default of the next) and the
  world. \<^verbatim>\<open>text += None\<close> raises \<^verbatim>\<open>TypeError\<close>.
\<close>

definition is_regular_file :: "env \<Rightarrow> world \<Rightarrow> string \<Rightarrow> bool" where
  "is_regular_file E w p \<longleftrightarrow> path_exists E w p \<and> path_isfile E w p"

definition ref_path :: "env \<Rightarrow> world \<Rightarrow> string option \<Rightarrow> string \<Rightarrow> string option" where
  "ref_path E w basepath file_name =
     (let user_path = path_join (get_user_path E) file_name;
          is_abs = is_absolute E file_name
      in if \<not> is_abs then
           (let base_temp = map_option (\<lambda>b. normpath (path_join b file_name)) basepath;
                user_temp = Some (normpath (path_join user_path file_name))
            in if (case base_temp of Some p \<Rightarrow> is_regular_file E w p | None \<Rightarrow> False)
               then base_temp
               else if (case user_temp of Some p \<Rightarrow> is_regular_file E w p | None \<Rightarrow> False)
               then user_temp
               else None)
         else if is_abs \<and> is_regular_file E w file_name then Some file_name
         else None)"

fun get_references_loop ::
  "env \<Rightarrow> string option \<Rightarrow> string \<Rightarrow> string \<Rightarrow> world \<Rightarrow> string list \<Rightarrow> py_error + (string \<times> world)"
where
  "get_references_loop E basepath text encoding w [] = Inr (text, w)"
| "get_references_loop E basepath text encoding w (entry # rest) =
     (let (file_name, encoding) = splitenc E entry encoding
      in case ref_path E w basepath file_name of
           Some p \<Rightarrow>
             (case load_text_resource E w p encoding of
                Some t \<Rightarrow> get_references_loop E basepath (text @ t) encoding w rest
              | None \<Rightarrow> Inl TypeError)
         | None \<Rightarrow>
             get_references_loop E basepath text encoding
               (w @ [Log_error (''Could not find reference file '' @ file_name @ ''!'')]) rest)"

definition get_references ::
  "env \<Rightarrow> world \<Rightarrow> string list \<Rightarrow> string option \<Rightarrow> string \<Rightarrow> py_error + (string \<times> world)"
where
  "get_references E w references basepath encoding =
     get_references_loop E basepath '''' encoding w references"

text \<open>
  The value of the loop variable \<^verbatim>\<open>encoding\<close> after the entries \<open>entries\<close>: each call
  of \<^verbatim>\<open>splitenc\<close> rebinds it, whatever becomes of the entry.
\<close>

fun enc_after :: "env \<Rightarrow> string \<Rightarrow> string list \<Rightarrow> string" where
  "enc_after E encoding [] = encoding"
| "enc_after E encoding (entry # rest) = enc_after E (snd (splitenc E entry encoding)) rest"

section \<open>The class Convert\<close>

text \<open>
  \<^verbatim>\<open>
  def read_file(self, file_name):
      try:
          with codecs.open(file_name, "r", encoding=self.config.encoding) as f:
              text = f.read()
      except:
          logger.Log.error("Failed to open %s!" % file_name)
          text = None
      return text
  \<close>
\<close>

definition Convert_read_file :: "env \<Rightarrow> Convert \<Rightarrow> world \<Rightarrow> string \<Rightarrow> string option \<times> world" where
  "Convert_read_file E self w file_name =
     (case codecs_read E w file_name (cfg_encoding (self_config self)) of
        Some text \<Rightarrow> (Some text, w)
      | None \<Rightarrow> (None, w @ [Log_error (''Failed to open '' @ file_name @ ''!'')]))"

text \<open>
  \<^verbatim>\<open>
  def get_file_settings(self, file_name, frontmatter={}):
      status = PASS
      try:
          self.settings = self.config.get(
              file_name, basepath=self.basepath, output=self.output, frontmatter=frontmatter
          )
      except:
          logger.Log.error(traceback.format_exc())
          status = FAIL
      return status
  \<close>
  The method assigns \<^verbatim>\<open>self.settings\<close>: the model returns the instance as well.
\<close>

definition Convert_get_file_settings ::
  "env \<Rightarrow> Convert \<Rightarrow> world \<Rightarrow> string option \<Rightarrow> frontmatter \<Rightarrow> status \<times> Convert \<times> world"
where
  "Convert_get_file_settings E self w file_name frontmatter =
     (case config_get E w file_name (self_basepath self) (self_output self) frontmatter of
        Inr s \<Rightarrow> (PASS, self\<lparr>self_settings := Some s\<rparr>, w)
      | Inl traceback \<Rightarrow> (FAIL, self, w @ [Log_error traceback]))"

text \<open>
  \<^verbatim>\<open>
  def critic_dump(self, file_name, text):
      status = PASS

      status = self.get_file_settings(file_name)

      if status == PASS and file_name is not None:
          text = self.read_file(file_name)
          if text is None:
              status = FAIL

      if status == PASS:
          if not (self.config.critic & (settings.CRITIC_REJECT | settings.CRITIC_ACCEPT)):
              logger.Log.error("Acceptance or rejection was not specified for critic dump!")
              status = FAIL
          else:
              # Create text object
              try:
                  txt = formatter.Text(self.settings["page"]["destination"], self.config.output_encoding)
              except:
                  logger.Log.error("Failed to create text file!")
                  status = FAIL

      if status == PASS:
          text = critic_dump.CriticDump().dump(
              text,
              self.config.critic & settings.CRITIC_ACCEPT,
              self.config.critic & settings.CRITIC_VIEW
          )
          txt.write(text)
          txt.close()

      return status
  \<close>
  The three guarded blocks are the three nested tests of the model. When \<^verbatim>\<open>file_name\<close>
  is \<^verbatim>\<open>None\<close> the text is the argument; what the absent \<^verbatim>\<open>CriticDump().dump\<close> does with
  \<^verbatim>\<open>None\<close> for a text is not known, and the model takes the call to raise.
\<close>

definition Convert_critic_dump ::
  "env \<Rightarrow> Convert \<Rightarrow> world \<Rightarrow> string option \<Rightarrow> string option
    \<Rightarrow> py_error + (status \<times> Convert \<times> world)"
where
  "Convert_critic_dump E self w0 file_name text0 =
     (let w = w0 @ [Enter_critic_dump file_name text0];
          (status, self, w) = Convert_get_file_settings E self w file_name [];
          (status, text, w) =
            (case file_name of
               Some f \<Rightarrow>
                 if status = PASS
                 then (let (text, w) = Convert_read_file E self w f
                       in (if text = None then FAIL else status, text, w))
                 else (status, text0, w)
             | None \<Rightarrow> (status, text0, w))
      in if status = PASS then
           if cfg_critic (self_config self) AND (CRITIC_REJECT OR CRITIC_ACCEPT) = 0
           then Inr (FAIL, self,
                  w @ [Log_error ''Acceptance or rejection was not specified for critic dump!''])
           else
             (case self_settings self of
                None \<Rightarrow> Inr (FAIL, self, w @ [Log_error ''Failed to create text file!''])
              | Some s \<Rightarrow>
                  if new_Text E w (page_destination (fs_page s))
                       (cfg_output_encoding (self_config self))
                  then
                    (let w = w @ [Text_open (page_destination (fs_page s))
                                    (cfg_output_encoding (self_config self))]
                     in case text of
                          None \<Rightarrow> Inl TypeError
                        | Some t \<Rightarrow>
                            (let text = CriticDump_dump E t
                                   (cfg_critic (self_config self) AND CRITIC_ACCEPT)
                                   (cfg_critic (self_config self) AND CRITIC_VIEW)
                             in Inr (PASS, self, w @ [Text_write text, Text_close])))
                  else Inr (FAIL, self, w @ [Log_error ''Failed to create text file!'']))
         else Inr (status, self, w))"

text \<open>
  \<^verbatim>\<open>
  def strip_frontmatter(self, text):
      frontmatter, text = get_frontmatter_string(text)
      return frontmatter, text

  def html_dump(self, file_name, text):
      status = PASS

      html_title = get_title(file_name, self.title)

      if status == PASS and file_name is not None:
          text = self.read_file(file_name)
          if text is None:
              status = FAIL

      if status == PASS:
          frontmatter, text = self.strip_frontmatter(text)
          status = self.get_file_settings(file_name, frontmatter=frontmatter)

      if status == PASS:
          text += get_references(
              self.settings["page"].get("references", []),
              self.settings["page"]["basepath"],
              self.config.encoding
          )

          # Create html object
          try:
              html = formatter.Html(
                  self.settings["page"]["destination"], preview=self.config.preview,
                  plain=self.config.plain, settings=self.settings["settings"],
                  basepath=self.settings["page"]["basepath"],
                  aliases=self.settings["page"]["include"],
                  encoding=self.config.output_encoding
              )
          except:
              logger.Log.error(traceback.format_exc())
              status = FAIL

      if status == PASS:
          # Convert markdown to HTML
          try:
              converter = MdConverts(
                  text,
                  smart_emphasis=self.settings["settings"].get('smart_emphasis', True),
                  lazy_ol=self.settings["settings"].get('lazy_ol', True),
                  tab_length=self.settings["settings"].get('tab_length', 4),
                  base_path=self.settings["page"]["basepath"],
                  relative_output=path.dirname(html.file.name) if html.file.name else self.config.relative_out,
                  enable_attributes=self.settings["settings"].get('enable_attributes', True),
                  output_format=self.settings["settings"].get('output_format', 'xhtml1'),
                  extensions=self.settings["settings"]["extensions"]
              )

              converter.convert()

              # Retrieve meta data if available and merge with frontmatter
              # meta data.
              #     1. Frontmatter will override normal meta data.
              #     2. Meta data overrides --title option on command line.
              html.set_meta(
                  merge_meta(converter.meta, self.settings["page"]["meta"], title=html_title)
              )
          except:
              logger.Log.error(str(traceback.format_exc()))
              html.close()
              status = FAIL

      if status == PASS:
          # Write the markdown
          html.write(scrub.scrub(converter.markdown) if self.config.clean else converter.markdown)
          html.close()

          # Preview the markdown
          if html.file.name is not None and self.config.preview and status == PASS:
              auto_open(html.file.name)
      return status
  \<close>
  \<open>strip_frontmatter\<close> is \<open>get_frontmatter_string\<close> of the environment. As in
  \<^verbatim>\<open>critic_dump\<close>, a text that is \<^verbatim>\<open>None\<close> when it reaches a collaborator is taken to
  raise. \<open>html_dump_args\<close> and \<open>html_dump_md_args\<close> are the argument lists of the two
  constructor calls.
\<close>

definition html_dump_args :: "Convert \<Rightarrow> file_settings \<Rightarrow> html_args" where
  "html_dump_args self s =
     \<lparr>html_destination = page_destination (fs_page s),
      html_preview = cfg_preview (self_config self),
      html_plain = cfg_plain (self_config self),
      html_settings = fs_settings s,
      html_basepath = page_basepath (fs_page s),
      html_aliases = page_include (fs_page s),
      html_encoding = cfg_output_encoding (self_config self)\<rparr>"

definition dict_get :: "'a option \<Rightarrow> 'a \<Rightarrow> 'a" where
  "dict_get v d = (case v of Some x \<Rightarrow> x | None \<Rightarrow> d)"

definition html_dump_md_args ::
  "Convert \<Rightarrow> file_settings \<Rightarrow> string option \<Rightarrow> string \<Rightarrow> md_args"
where
  "html_dump_md_args self s html_file_name text =
     \<lparr>md_text = text,
      md_smart_emphasis = dict_get (smart_emphasis (fs_settings s)) True,
      md_lazy_ol = dict_get (lazy_ol (fs_settings s)) True,
      md_tab_length = dict_get (tab_length (fs_settings s)) 4,
      md_base_path = page_basepath (fs_page s),
      md_relative_output =
        (case html_file_name of
           Some n \<Rightarrow> if n \<noteq> '''' then Some (dirname n) else cfg_relative_out (self_config self)
         | None \<Rightarrow> cfg_relative_out (self_config self)),
      md_enable_attributes = dict_get (enable_attributes (fs_settings s)) True,
      md_output_format = dict_get (output_format (fs_settings s)) ''xhtml1'',
      md_extensions = extensions (fs_settings s)\<rparr>"

definition Convert_html_dump ::
  "env \<Rightarrow> Convert \<Rightarrow> world \<Rightarrow> string option \<Rightarrow> string option
    \<Rightarrow> py_error + (status \<times> Convert \<times> world)"
where
  "Convert_html_dump E self w0 file_name text0 =
     (let w = w0 @ [Enter_html_dump file_name text0];
          html_title = get_title (getcwd E) file_name (self_title self);
          (status, text, w) =
            (case file_name of
               Some f \<Rightarrow>
                 (let (text, w) = Convert_read_file E self w f
                  in (if text = None then FAIL else PASS, text, w))
             | None \<Rightarrow> (PASS, text0, w))
      in if status \<noteq> PASS then Inr (status, self, w)
         else
           (case text of
              None \<Rightarrow> Inl AttributeError
            | Some t \<Rightarrow>
                (let (frontmatter, text) = get_frontmatter_string E t;
                     (status, self, w) = Convert_get_file_settings E self w file_name frontmatter
                 in if status \<noteq> PASS then Inr (status, self, w)
                    else
                      (case self_settings self of
                         None \<Rightarrow> Inl AttributeError
                       | Some s \<Rightarrow>
                           (case get_references E w
                                   (dict_get (page_references (fs_page s)) [])
                                   (page_basepath (fs_page s))
                                   (cfg_encoding (self_config self)) of
                              Inl e \<Rightarrow> Inl e
                            | Inr (ref_text, w) \<Rightarrow>
                                (let text = text @ ref_text
                                 in case new_Html E w (html_dump_args self s) of
                                      Inl traceback \<Rightarrow> Inr (FAIL, self, w @ [Log_error traceback])
                                    | Inr html_file_name \<Rightarrow>
                                        (let w = w @ [Html_open (html_dump_args self s)]
                                         in case MdConverts E w
                                                   (html_dump_md_args self s html_file_name text) of
                                              Inl traceback \<Rightarrow>
                                                Inr (FAIL, self, w @ [Log_error traceback, Html_close])
                                            | Inr converter \<Rightarrow>
                                                (let w = w @ [Html_set_meta
                                                         (merge_meta (md_meta converter)
                                                            (page_meta (fs_page s))
                                                            (map_option MStr html_title))];
                                                     w = w @ [Html_write
                                                         (if cfg_clean (self_config self)
                                                          then scrub E (markdown converter)
                                                          else markdown converter),
                                                        Html_close];
                                                     w = (case html_file_name of
                                                            Some n \<Rightarrow>
                                                              if cfg_preview (self_config self)
                                                              then w @ [Auto_open n] else w
                                                          | None \<Rightarrow> w)
                                                 in Inr (PASS, self, w)))))))))"

text \<open>
  \<^verbatim>\<open>
  def convert(self, files):
      status = PASS

      # Make sure we have something we can process
      if files is None or len(files) == 0 or files[0] in ('', None):
          logger.Log.error("Nothing to parse!")
          status = FAIL

      if status == PASS:
          for md_file in files:
              # Quit dumping if there was an error
              if status != PASS:
                  break

              if self.config.is_stream:
                  logger.Log.info("Converting buffer...")
              else:
                  logger.Log.info("Converting %s..." % md_file)

              if status == PASS:
                  file_name = md_file if not self.config.is_stream else None
                  text = None if not self.config.is_stream else md_file
                  md_file = None
                  if self.config.critic & settings.CRITIC_DUMP:
                      status = self.critic_dump(file_name, text)
                  else:
                      status = self.html_dump(file_name, text)
      return status
  \<close>
  \<^verbatim>\<open>files\<close> is \<^verbatim>\<open>None\<close> or a list whose elements are strings or \<^verbatim>\<open>None\<close>
  (\<^verbatim>\<open>get_file_stream\<close> returns \<^verbatim>\<open>None\<close> when reading the stream fails). \<open>convert_one\<close>
  is the body of the loop for one element, \<open>convert_loop\<close> the loop with its
  variable \<^verbatim>\<open>status\<close>, the instance and the world.
\<close>

definition convert_one ::
  "env \<Rightarrow> Convert \<Rightarrow> world \<Rightarrow> string option \<Rightarrow> py_error + (status \<times> Convert \<times> world)"
where
  "convert_one E self w md_file =
     (let w = w @ [if cfg_is_stream (self_config self)
                   then Log_info ''Converting buffer...''
                   else Log_info (''Converting ''
                          @ (case md_file of Some f \<Rightarrow> f | None \<Rightarrow> ''None'') @ ''...'')];
          file_name = (if \<not> cfg_is_stream (self_config self) then md_file else None);
          text = (if \<not> cfg_is_stream (self_config self) then None else md_file)
      in if cfg_critic (self_config self) AND CRITIC_DUMP \<noteq> 0
         then Convert_critic_dump E self w file_name text
         else Convert_html_dump E self w file_name text)"

fun convert_loop ::
  "env \<Rightarrow> status \<Rightarrow> Convert \<Rightarrow> world \<Rightarrow> string option list
    \<Rightarrow> py_error + (status \<times> Convert \<times> world)"
where
  "convert_loop E status self w [] = Inr (status, self, w)"
| "convert_loop E status self w (md_file # files) =
     (if status \<noteq> PASS then Inr (status, self, w)
      else
        (case convert_one E self w md_file of
           Inl e \<Rightarrow> Inl e
         | Inr (status, self, w) \<Rightarrow> convert_loop E status self w files))"

definition nothing_to_parse :: "string option list option \<Rightarrow> bool" where
  "nothing_to_parse files \<longleftrightarrow>
     (case files of
        None \<Rightarrow> True
      | Some fs \<Rightarrow>
          (case fs of [] \<Rightarrow> True | f # _ \<Rightarrow> f = Some '''' \<or> f = None))"

definition Convert_convert ::
  "env \<Rightarrow> Convert \<Rightarrow> world \<Rightarrow> string option list option
    \<Rightarrow> py_error + (status \<times> Convert \<times> world)"
where
  "Convert_convert E self w files =
     (if nothing_to_parse files
      then Inr (FAIL, self, w @ [Log_error ''Nothing to parse!''])
      else
        (case files of
           None \<Rightarrow> Inr (PASS, self, w)
         | Some fs \<Rightarrow> convert_loop E PASS self w fs))"

text \<open>
  Two observations on a trace, used to state which documents were processed: the
  arguments of the per-document methods entered, in order, and the arguments that
  \<^verbatim>\<open>convert\<close> passes for one element of \<^verbatim>\<open>files\<close> (\<^verbatim>\<open>file_name\<close> and \<^verbatim>\<open>text\<close>).
\<close>

fun entered :: "world \<Rightarrow> (string option \<times> string option) list" where
  "entered [] = []"
| "entered (Enter_critic_dump file_name text # w) = (file_name, text) # entered w"
| "entered (Enter_html_dump file_name text # w) = (file_name, text) # entered w"
| "entered (e # w) = entered w"

definition document_args :: "Convert \<Rightarrow> string option \<Rightarrow> string option \<times> string option" where
  "document_args self md_file =
     (if \<not> cfg_is_stream (self_config self) then (md_file, None) else (None, md_file))"

section \<open>A sample environment\<close>

text \<open>
  A small concrete environment, on which the operations above can be evaluated: one
  readable document \<^verbatim>\<open>a.md\<close> with front matter, one reference file in the user
  directory and one beside the document, a settings source that takes the destination
  and the metadata from the front matter and lists three references, and an engine that
  wraps the text in a paragraph and emits one metadata key. It is not part of the
  program.
\<close>

definition sample_text :: string where
  "sample_text = ''---destination: out.md---{++new++}''"

definition sample_frontmatter :: frontmatter where
  "sample_frontmatter =
     [(''destination'', MStr ''out.md''), (''author'', MStr ''Front'')]"

definition sample_settings :: "string option \<Rightarrow> frontmatter \<Rightarrow> file_settings" where
  "sample_settings out fm =
     \<lparr>fs_page =
        \<lparr>page_destination =
           (case map_of fm ''destination'' of Some (MStr d) \<Rightarrow> Some d | _ \<Rightarrow> out),
         page_basepath = Some ''/doc'',
         page_include = [],
         page_meta = map_of fm,
         page_references = Some [''notes.md'', ''refs.md'', ''notes.md'']\<rparr>,
      fs_settings =
        \<lparr>smart_emphasis = None, lazy_ol = None, tab_length = None,
         enable_attributes = None, output_format = None, extensions = []\<rparr>\<rparr>"

definition sample_env :: env where
  "sample_env =
     \<lparr>getcwd = ''/doc'',
      get_user_path = ''/u'',
      splitenc = (\<lambda>entry d. (entry, d)),
      is_absolute = (\<lambda>p. startswith p ''/''),
      load_text_resource =
        (\<lambda>w p e. if p = ''/u/refs.md'' then Some ''[ref]: x''
                else if p = ''/doc/notes.md'' then Some ''[n]: y'' else None),
      path_exists = (\<lambda>w p. p = ''/u/refs.md'' \<or> p = ''/doc/a.md'' \<or> p = ''/doc/notes.md''),
      path_isfile = (\<lambda>w p. p = ''/u/refs.md'' \<or> p = ''/doc/a.md'' \<or> p = ''/doc/notes.md''),
      codecs_read = (\<lambda>w f e. if f = ''a.md'' then Some sample_text else None),
      config_get = (\<lambda>w file_name bp out fm. Inr (sample_settings out fm)),
      get_frontmatter_string =
        (\<lambda>t. if t = sample_text then (sample_frontmatter, ''{++new++}'') else ([], t)),
      new_Text = (\<lambda>w d e. True),
      CriticDump_dump = (\<lambda>t a v. t),
      new_Html = (\<lambda>w a. Inr (html_destination a)),
      MdConverts =
        (\<lambda>w a. Inr \<lparr>markdown = ''<p>'' @ md_text a @ ''</p>'',
                      md_meta = [''author'' \<mapsto> MStr ''Engine'']\<rparr>),
      scrub = (\<lambda>t. t)\<rparr>"

definition sample_self :: "int \<Rightarrow> Convert" where
  "sample_self c =
     \<lparr>self_config =
        \<lparr>cfg_encoding = ''utf-8'', cfg_output_encoding = ''utf-8'', cfg_critic = c,
         cfg_is_stream = False, cfg_preview = False, cfg_plain = False, cfg_clean = False,
         cfg_relative_out = None\<rparr>,
      self_output = None, self_basepath = None, self_title = None,
      self_settings_path = None, self_settings = None\<rparr>"

section \<open>The inline patterns of \<^verbatim>\<open>mdownx.delete\<close> and \<^verbatim>\<open>mdownx.insert\<close>\<close>















section \<open>Properties of the critic mode\<close>

lemmas CRITIC_defs =
  CRITIC_IGNORE_def CRITIC_ACCEPT_def CRITIC_REJECT_def CRITIC_VIEW_def CRITIC_DUMP_def

lemma get_critic_mode_cases:
  "get_critic_mode a =
     (if accept a \<and> reject a then (if critic_dump a then 12 else 4)
      else if accept a then (if critic_dump a then 9 else 1)
      else if reject a then (if critic_dump a then 10 else 2)
      else (if critic_dump a then 8 else 0))"
  by (simp add: get_critic_mode_def CRITIC_defs)

text \<open>
  Claim C8. When both the accept and the reject option are given, the computed mode has
  the View flag and neither the Accept nor the Reject flag; and whatever the options
  are, the mode never has Accept and Reject together.
\<close>

theorem get_critic_mode_accept_reject_exclusive:
  "(accept a \<and> reject a \<longrightarrow>
      flag_set (get_critic_mode a) CRITIC_VIEW
      \<and> \<not> flag_set (get_critic_mode a) CRITIC_ACCEPT
      \<and> \<not> flag_set (get_critic_mode a) CRITIC_REJECT)
   \<and> \<not> (flag_set (get_critic_mode a) CRITIC_ACCEPT
        \<and> flag_set (get_critic_mode a) CRITIC_REJECT)"
  by (simp add: get_critic_mode_cases flag_set_def CRITIC_defs)

theorem get_critic_mode_accept_reject_exclusive_witness:
  "accept \<lparr>accept = True, reject = True, critic_dump = True\<rparr>
   \<and> reject \<lparr>accept = True, reject = True, critic_dump = True\<rparr>
   \<and> get_critic_mode \<lparr>accept = True, reject = True, critic_dump = True\<rparr> = 12
   \<and> flag_set (get_critic_mode \<lparr>accept = True, reject = True, critic_dump = True\<rparr>) CRITIC_VIEW
   \<and> \<not> flag_set (get_critic_mode \<lparr>accept = True, reject = True, critic_dump = True\<rparr>) CRITIC_ACCEPT
   \<and> \<not> flag_set (get_critic_mode \<lparr>accept = True, reject = True, critic_dump = True\<rparr>) CRITIC_REJECT"
  using get_critic_mode_accept_reject_exclusive
    [of "\<lparr>accept = True, reject = True, critic_dump = True\<rparr>"]
  by (simp add: get_critic_mode_cases)

section \<open>The sample environment, field by field\<close>

lemma sample_env_simps:
  "getcwd sample_env = ''/doc''"
  "get_user_path sample_env = ''/u''"
  "splitenc sample_env entry d = (entry, d)"
  "is_absolute sample_env p = startswith p ''/''"
  "load_text_resource sample_env w p e =
     (if p = ''/u/refs.md'' then Some ''[ref]: x''
      else if p = ''/doc/notes.md'' then Some ''[n]: y'' else None)"
  "path_exists sample_env w p = (p = ''/u/refs.md'' \<or> p = ''/doc/a.md'' \<or> p = ''/doc/notes.md'')"
  "path_isfile sample_env w p = (p = ''/u/refs.md'' \<or> p = ''/doc/a.md'' \<or> p = ''/doc/notes.md'')"
  "codecs_read sample_env w f e = (if f = ''a.md'' then Some sample_text else None)"
  "config_get sample_env w fn bp out fm = Inr (sample_settings out fm)"
  "get_frontmatter_string sample_env t =
     (if t = sample_text then (sample_frontmatter, ''{++new++}'') else ([], t))"
  "new_Text sample_env w dst e = True"
  "CriticDump_dump sample_env t a v = t"
  "new_Html sample_env w ha = Inr (html_destination ha)"
  "MdConverts sample_env w ma =
     Inr \<lparr>markdown = ''<p>'' @ md_text ma @ ''</p>'',
          md_meta = [''author'' \<mapsto> MStr ''Engine'']\<rparr>"
  "scrub sample_env t = t"
  by (simp_all add: sample_env_def)

lemma sample_self_simps:
  "self_config (sample_self c) =
     \<lparr>cfg_encoding = ''utf-8'', cfg_output_encoding = ''utf-8'', cfg_critic = c,
      cfg_is_stream = False, cfg_preview = False, cfg_plain = False, cfg_clean = False,
      cfg_relative_out = None\<rparr>"
  "self_output (sample_self c) = None"
  "self_basepath (sample_self c) = None"
  "self_title (sample_self c) = None"
  "self_settings (sample_self c) = None"
  by (simp_all add: sample_self_def)

section \<open>The batch loop\<close>

lemma entered_append: "entered (w @ w') = entered w @ entered w'"
  by (induction w rule: entered.induct) simp_all

lemma read_file_entered:
  "Convert_read_file E self w f = (t, w') \<Longrightarrow> entered w' = entered w"
  by (auto simp: Convert_read_file_def entered_append split: option.splits)

lemma get_file_settings_entered:
  "Convert_get_file_settings E self w fn fm = (st, self', w') \<Longrightarrow>
     entered w' = entered w \<and> self_config self' = self_config self"
  by (auto simp: Convert_get_file_settings_def entered_append split: sum.splits)

lemma get_references_loop_entered:
  "get_references_loop E bp tx enc w refs = Inr (t, w') \<Longrightarrow> entered w' = entered w"
proof (induction refs arbitrary: tx enc w)
  case Nil
  then show ?case by simp
next
  case (Cons entry refs)
  then show ?case
    by (auto simp: entered_append split: prod.splits option.splits)
qed

lemma critic_dump_entered:
  assumes "Convert_critic_dump E self w fn tx = Inr (st, self', w')"
  shows "entered w' = entered w @ [(fn, tx)] \<and> self_config self' = self_config self"
proof -
  obtain st1 self1 w1 where gs:
    "Convert_get_file_settings E self (w @ [Enter_critic_dump fn tx]) fn [] = (st1, self1, w1)"
    by (metis prod_cases3)
  from get_file_settings_entered[OF gs]
  have e1: "entered w1 = entered w @ [(fn, tx)]" and c1: "self_config self1 = self_config self"
    by (simp_all add: entered_append)
  show ?thesis
    using assms gs e1 c1
    by (auto simp: Convert_critic_dump_def Let_def entered_append
        dest!: read_file_entered
        split: option.splits if_splits prod.splits)
qed

lemma html_dump_entered:
  assumes "Convert_html_dump E self w fn tx = Inr (st, self', w')"
  shows "entered w' = entered w @ [(fn, tx)] \<and> self_config self' = self_config self"
  using assms
  by (auto simp: Convert_html_dump_def Let_def entered_append get_references_def
      dest!: read_file_entered get_file_settings_entered get_references_loop_entered
      split: option.splits if_splits prod.splits sum.splits)

lemma convert_loop_FAIL: "convert_loop E FAIL self w files = Inr (FAIL, self, w)"
  by (cases files) simp_all

lemma convert_loop_append:
  "convert_loop E st self w (pre @ rest) =
     (case convert_loop E st self w pre of
        Inl e \<Rightarrow> Inl e
      | Inr (st', self', w') \<Rightarrow> convert_loop E st' self' w' rest)"
proof (induction pre arbitrary: st self w)
  case Nil
  show ?case by simp
next
  case (Cons d pre)
  show ?case
  proof (cases st)
    case PASS
    then show ?thesis
      using Cons.IH by (simp split: sum.splits prod.splits)
  next
    case FAIL
    then show ?thesis by (simp add: convert_loop_FAIL)
  qed
qed


lemma convert_one_entered:
  assumes "convert_one E self w d = Inr (st, self', w')"
  shows "entered w' = entered w @ [document_args self d] \<and> self_config self' = self_config self"
proof (cases "cfg_critic (self_config self) AND CRITIC_DUMP \<noteq> 0")
  case True
  with assms critic_dump_entered show ?thesis
    by (fastforce simp: convert_one_def Let_def entered_append document_args_def)
next
  case False
  with assms html_dump_entered show ?thesis
    by (fastforce simp: convert_one_def Let_def entered_append document_args_def)
qed

lemma document_args_config:
  "self_config self' = self_config self \<Longrightarrow> document_args self' = document_args self"
  by (rule ext) (simp add: document_args_def)

lemma convert_loop_entered:
  "convert_loop E PASS self w files = Inr (PASS, self', w') \<Longrightarrow>
     entered w' = entered w @ map (document_args self) files
     \<and> self_config self' = self_config self"
proof (induction files arbitrary: self w)
  case Nil
  then show ?case by simp
next
  case (Cons d files)
  from Cons.prems obtain st1 self1 w1 where
    one: "convert_one E self w d = Inr (st1, self1, w1)"
    and rest: "convert_loop E st1 self1 w1 files = Inr (PASS, self', w')"
    by (auto split: sum.splits)
  have "st1 = PASS"
    using rest by (cases st1) (simp_all add: convert_loop_FAIL)
  with rest Cons.IH have
    "entered w' = entered w1 @ map (document_args self1) files"
    "self_config self' = self_config self1"
    by blast+
  moreover from convert_one_entered[OF one] have
    "entered w1 = entered w @ [document_args self d]" "self_config self1 = self_config self"
    by simp_all
  moreover from this have "document_args self1 = document_args self"
    by (simp add: document_args_config[of self1 self])
  ultimately show ?case by simp
qed

lemma convert_one_missing_sample:
  assumes "self_config self = self_config (sample_self 0)"
  shows "convert_one sample_env self w (Some ''missing.md'')
           = Inr (FAIL, self,
               w @ [Log_info ''Converting missing.md...'',
                    Enter_html_dump (Some ''missing.md'') None,
                    Log_error ''Failed to open missing.md!''])"
  using assms
  by (simp add: convert_one_def Convert_html_dump_def Convert_read_file_def
      sample_env_simps sample_self_simps CRITIC_defs)

lemma ref_path_sample_refs:
  "ref_path sample_env w (Some ''/doc'') ''refs.md'' = None"
  by (simp add: ref_path_def is_regular_file_def sample_env_simps path_join_def
      startswith_def endswith_def normpath_def initial_slashes_def)

lemma get_references_sample:
  "get_references sample_env w [''refs.md''] (Some ''/doc'') enc
     = Inr ('''', w @ [Log_error ''Could not find reference file refs.md!''])"
  by (simp add: get_references_def ref_path_sample_refs sample_env_simps)

lemma ref_path_sample_notes:
  "ref_path sample_env w (Some ''/doc'') ''notes.md'' = Some ''/doc/notes.md''"
  by (simp add: ref_path_def is_regular_file_def sample_env_simps path_join_def
      startswith_def endswith_def normpath_def initial_slashes_def)

lemma get_references_sample_list:
  "get_references sample_env w [''notes.md'', ''refs.md'', ''notes.md''] (Some ''/doc'') enc
     = Inr (''[n]: y[n]: y'', w @ [Log_error ''Could not find reference file refs.md!''])"
  by (simp add: get_references_def ref_path_sample_refs ref_path_sample_notes
      sample_env_simps)

lemma convert_one_a_sample:
  "\<exists>self1 w1. convert_one sample_env (sample_self 0) [] (Some ''a.md'')
      = Inr (PASS, self1, w1)"
  by (simp add: convert_one_def Convert_html_dump_def Convert_read_file_def
      Convert_get_file_settings_def CRITIC_defs get_references_sample_list
      sample_settings_def dict_get_def sample_self_simps sample_env_simps Let_def
      sample_frontmatter_def html_dump_args_def)

text \<open>
  Claim C10. When \<^verbatim>\<open>files\<close> is \<^verbatim>\<open>None\<close>, is empty, or starts with the empty string or
  with \<^verbatim>\<open>None\<close>, \<^verbatim>\<open>convert\<close> logs the error "Nothing to parse!" and returns FAIL; the
  trace grows by that one message, so neither \<^verbatim>\<open>critic_dump\<close> nor \<^verbatim>\<open>html_dump\<close> is
  entered and nothing else happens.
\<close>

theorem convert_nothing_to_parse:
  "files = None \<or> files = Some [] \<or> (\<exists>rest. files = Some (Some '''' # rest))
     \<or> (\<exists>rest. files = Some (None # rest)) \<Longrightarrow>
   Convert_convert E self w files = Inr (FAIL, self, w @ [Log_error ''Nothing to parse!''])"
  by (auto simp: Convert_convert_def nothing_to_parse_def)

theorem convert_nothing_to_parse_witness:
  "\<forall>E self w.
     Convert_convert E self w (Some [None, Some ''a.md''])
       = Inr (FAIL, self, w @ [Log_error ''Nothing to parse!''])
     \<and> Convert_convert E self w None = Inr (FAIL, self, w @ [Log_error ''Nothing to parse!''])
     \<and> entered (w @ [Log_error ''Nothing to parse!'']) = entered w"
  using convert_nothing_to_parse [of "Some [None, Some ''a.md'']"]
    convert_nothing_to_parse [of None]
  by (simp add: entered_append)

text \<open>
  Claim C3. The documents of a batch are converted in the order of the list, each in
  the state its predecessor left, and the first conversion that returns FAIL ends the
  run: when the documents \<open>pre\<close> have been converted with PASS and the conversion of the
  next document \<open>d\<close> returns FAIL, \<^verbatim>\<open>convert\<close> returns FAIL with the instance and the
  trace exactly as that conversion left them, whatever documents \<open>post\<close> follow. The
  per-document methods entered are those of \<open>pre\<close> and \<open>d\<close>, in this order, and none
  of \<open>post\<close>.
\<close>

theorem convert_fail_fast:
  assumes "\<not> nothing_to_parse (Some (pre @ d # post))"
    and "convert_loop E PASS self w pre = Inr (PASS, self1, w1)"
    and "convert_one E self1 w1 d = Inr (FAIL, self2, w2)"
  shows "Convert_convert E self w (Some (pre @ d # post)) = Inr (FAIL, self2, w2)
         \<and> entered w2 = entered w @ map (document_args self) (pre @ [d])"
proof -
  have "Convert_convert E self w (Some (pre @ d # post)) = Inr (FAIL, self2, w2)"
    using assms by (simp add: Convert_convert_def convert_loop_append convert_loop_FAIL)
  moreover have "entered w2 = entered w @ map (document_args self) (pre @ [d])"
  proof -
    from convert_loop_entered[OF assms(2)] have
      pre: "entered w1 = entered w @ map (document_args self) pre"
      and cfg: "self_config self1 = self_config self"
      by simp_all
    from cfg have "document_args self1 = document_args self"
      by (rule document_args_config)
    with convert_one_entered[OF assms(3)] pre show ?thesis by simp
  qed
  ultimately show ?thesis by simp
qed

theorem convert_fail_fast_witness:
  "\<not> nothing_to_parse (Some ([Some ''a.md''] @ Some ''missing.md'' # [Some ''c.md'']))
   \<and> (\<exists>self2 w2.
         Convert_convert sample_env (sample_self 0) []
             (Some ([Some ''a.md''] @ Some ''missing.md'' # [Some ''c.md'']))
           = Inr (FAIL, self2, w2)
         \<and> entered w2 = [(Some ''a.md'', None), (Some ''missing.md'', None)])"
proof -
  obtain self1 w1 where
    a: "convert_one sample_env (sample_self 0) [] (Some ''a.md'') = Inr (PASS, self1, w1)"
    using convert_one_a_sample by blast
  have loop: "convert_loop sample_env PASS (sample_self 0) [] [Some ''a.md'']
                = Inr (PASS, self1, w1)"
    using a by simp
  have cfg: "self_config self1 = self_config (sample_self 0)"
    using convert_one_entered[OF a] by simp
  have n: "\<not> nothing_to_parse (Some ([Some ''a.md''] @ Some ''missing.md'' # [Some ''c.md'']))"
    by (simp add: nothing_to_parse_def)
  from convert_fail_fast[OF n loop convert_one_missing_sample[OF cfg]] n
  show ?thesis
    by (simp add: document_args_def sample_self_simps)
qed

section \<open>The critic dump\<close>

lemma no_resolution_iff:
  "c AND (CRITIC_REJECT OR CRITIC_ACCEPT) = 0
     \<longleftrightarrow> \<not> flag_set c CRITIC_ACCEPT \<and> \<not> flag_set c CRITIC_REJECT"
  by (auto simp: flag_set_def bit.conj_disj_distrib or_eq_0_iff)

lemma critic_dump_sample_missing:
  "Convert_critic_dump sample_env (sample_self 12) [] (Some ''missing.md'') None
     = Inr (FAIL, (sample_self 12)\<lparr>self_settings := Some (sample_settings None [])\<rparr>,
         [Enter_critic_dump (Some ''missing.md'') None,
          Log_error ''Failed to open missing.md!''])"
  by (simp add: Convert_critic_dump_def Convert_get_file_settings_def Convert_read_file_def
      sample_env_simps sample_self_simps CRITIC_defs)

lemma critic_dump_sample_view:
  "Convert_critic_dump sample_env (sample_self 12) [] (Some ''a.md'') None
     = Inr (FAIL, (sample_self 12)\<lparr>self_settings := Some (sample_settings None [])\<rparr>,
         [Enter_critic_dump (Some ''a.md'') None,
          Log_error ''Acceptance or rejection was not specified for critic dump!''])"
  by (simp add: Convert_critic_dump_def Convert_get_file_settings_def Convert_read_file_def
      sample_env_simps sample_self_simps CRITIC_defs)

lemma critic_dump_sample_accept:
  "Convert_critic_dump sample_env (sample_self 9) [] (Some ''a.md'') None
     = Inr (PASS, (sample_self 9)\<lparr>self_settings := Some (sample_settings None [])\<rparr>,
         [Enter_critic_dump (Some ''a.md'') None, Text_open None ''utf-8'',
          Text_write sample_text, Text_close])"
  by (simp add: Convert_critic_dump_def Convert_get_file_settings_def Convert_read_file_def
      sample_env_simps sample_self_simps CRITIC_defs sample_settings_def)

text \<open>
  Claim C1, as the spec states it: whenever the mode has neither the Accept nor the
  Reject flag, the critic dump reports the ambiguity error and the status is FAIL. The
  first half fails for a document that cannot be read: \<^verbatim>\<open>critic_dump\<close> resolves the
  settings and reads the file before it looks at the mode, and reports the failure of
  the read instead.
\<close>

theorem critic_dump_without_resolution_counterexample:
  "\<not> (\<forall>E self w file_name tx.
        \<not> flag_set (cfg_critic (self_config self)) CRITIC_ACCEPT
        \<and> \<not> flag_set (cfg_critic (self_config self)) CRITIC_REJECT
        \<longrightarrow> (\<exists>self' w'.
               Convert_critic_dump E self w file_name tx = Inr (FAIL, self', w')
               \<and> Log_error ''Acceptance or rejection was not specified for critic dump!''
                    \<in> set w'))"
proof
  assume claim: "\<forall>E self w file_name tx.
        \<not> flag_set (cfg_critic (self_config self)) CRITIC_ACCEPT
        \<and> \<not> flag_set (cfg_critic (self_config self)) CRITIC_REJECT
        \<longrightarrow> (\<exists>self' w'.
               Convert_critic_dump E self w file_name tx = Inr (FAIL, self', w')
               \<and> Log_error ''Acceptance or rejection was not specified for critic dump!''
                    \<in> set w')"
  have flags: "\<not> flag_set (cfg_critic (self_config (sample_self 12))) CRITIC_ACCEPT
               \<and> \<not> flag_set (cfg_critic (self_config (sample_self 12))) CRITIC_REJECT"
    by (simp add: sample_self_simps flag_set_def CRITIC_defs)
  from claim flags obtain self' w' where
    "Convert_critic_dump sample_env (sample_self 12) [] (Some ''missing.md'') None
       = Inr (FAIL, self', w')"
    and "Log_error ''Acceptance or rejection was not specified for critic dump!'' \<in> set w'"
    by blast
  then show False
    by (auto simp: critic_dump_sample_missing)
qed

text \<open>
  Claim C1, amended. Whenever the mode has neither the Accept nor the Reject flag,
  \<^verbatim>\<open>critic_dump\<close> returns FAIL and does nothing but log one error: no text object is
  created and nothing is written. Which error, the three steps decide in their order.
  When the settings do not resolve, it is the traceback of that failure, and
  \<^verbatim>\<open>self.settings\<close> is left as it was. When they resolve and the document has a file
  name whose file cannot be read, it is \<^verbatim>\<open>Failed to open <file name>!\<close>. When they
  resolve and the file is read, or the text came from the stream, it is the ambiguity
  error.
\<close>

theorem critic_dump_without_resolution:
  assumes "\<not> flag_set (cfg_critic (self_config self)) CRITIC_ACCEPT"
    and "\<not> flag_set (cfg_critic (self_config self)) CRITIC_REJECT"
  shows "Convert_critic_dump E self w file_name tx =
           (case config_get E (w @ [Enter_critic_dump file_name tx]) file_name
                   (self_basepath self) (self_output self) [] of
              Inl traceback \<Rightarrow>
                Inr (FAIL, self, w @ [Enter_critic_dump file_name tx, Log_error traceback])
            | Inr s \<Rightarrow>
                Inr (FAIL, self\<lparr>self_settings := Some s\<rparr>,
                  w @ [Enter_critic_dump file_name tx,
                       Log_error
                         (case file_name of
                            None \<Rightarrow>
                              ''Acceptance or rejection was not specified for critic dump!''
                          | Some f \<Rightarrow>
                              (case codecs_read E (w @ [Enter_critic_dump file_name tx]) f
                                      (cfg_encoding (self_config self)) of
                                 None \<Rightarrow> ''Failed to open '' @ f @ ''!''
                               | Some t \<Rightarrow>
                                   ''Acceptance or rejection was not specified for critic dump!''))]))"
proof -
  have amb: "cfg_critic (self_config self) AND (CRITIC_REJECT OR CRITIC_ACCEPT) = 0"
    using assms by (simp add: no_resolution_iff)
  show ?thesis
  proof (cases "config_get E (w @ [Enter_critic_dump file_name tx]) file_name
                   (self_basepath self) (self_output self) []")
    case (Inl traceback)
    then show ?thesis
      by (simp add: Convert_critic_dump_def Convert_get_file_settings_def Let_def
          split: option.splits)
  next
    case (Inr s)
    show ?thesis
    proof (cases file_name)
      case None
      with Inr amb show ?thesis
        by (simp add: Convert_critic_dump_def Convert_get_file_settings_def Let_def)
    next
      case (Some f)
      with Inr amb show ?thesis
        by (simp add: Convert_critic_dump_def Convert_get_file_settings_def
            Convert_read_file_def Let_def split: option.splits)
    qed
  qed
qed

theorem critic_dump_without_resolution_witness:
  "get_critic_mode \<lparr>accept = True, reject = True, critic_dump = True\<rparr> = 12
   \<and> \<not> flag_set (cfg_critic (self_config (sample_self 12))) CRITIC_ACCEPT
   \<and> \<not> flag_set (cfg_critic (self_config (sample_self 12))) CRITIC_REJECT
   \<and> Convert_critic_dump sample_env (sample_self 12) [] (Some ''a.md'') None
       = Inr (FAIL, (sample_self 12)\<lparr>self_settings := Some (sample_settings None [])\<rparr>,
           [Enter_critic_dump (Some ''a.md'') None,
            Log_error ''Acceptance or rejection was not specified for critic dump!''])
   \<and> Convert_critic_dump sample_env (sample_self 12) [] (Some ''missing.md'') None
       = Inr (FAIL, (sample_self 12)\<lparr>self_settings := Some (sample_settings None [])\<rparr>,
           [Enter_critic_dump (Some ''missing.md'') None,
            Log_error ''Failed to open missing.md!''])
   \<and> Convert_critic_dump
         (sample_env\<lparr>config_get := \<lambda>w file_name bp out fm. Inl ''KeyError''\<rparr>)
         (sample_self 12) [] None (Some ''{++new++}'')
       = Inr (FAIL, sample_self 12,
           [Enter_critic_dump None (Some ''{++new++}''), Log_error ''KeyError''])"
  using critic_dump_without_resolution
    [where self = "sample_self 12" and E = sample_env and w = "[]"
       and file_name = "Some ''a.md''" and tx = None]
    critic_dump_without_resolution
    [where self = "sample_self 12" and E = sample_env and w = "[]"
       and file_name = "Some ''missing.md''" and tx = None]
    critic_dump_without_resolution
    [where self = "sample_self 12"
       and E = "sample_env\<lparr>config_get := \<lambda>w file_name bp out fm. Inl ''KeyError''\<rparr>"
       and w = "[]" and file_name = None and tx = "Some ''{++new++}''"]
  by (simp add: sample_env_simps sample_self_simps flag_set_def CRITIC_defs
      get_critic_mode_def)

text \<open>
  Claim C6, as the spec states it: on the critic-dump branch the settings in force are
  those resolved with the front matter extracted from the document. They are not: the
  sample document carries a destination in its front matter, and the settings that
  \<^verbatim>\<open>critic_dump\<close> leaves in \<^verbatim>\<open>self.settings\<close> do not have it.
\<close>

theorem critic_dump_frontmatter_counterexample:
  "\<not> (\<forall>E self w f self' w'.
        Convert_critic_dump E self w (Some f) None = Inr (PASS, self', w')
        \<longrightarrow> (\<exists>w0 w1 t s.
               codecs_read E w0 f (cfg_encoding (self_config self)) = Some t
               \<and> config_get E w1 (Some f) (self_basepath self) (self_output self)
                    (fst (get_frontmatter_string E t)) = Inr s
               \<and> self_settings self' = Some s))"
proof
  assume claim: "\<forall>E self w f self' w'.
        Convert_critic_dump E self w (Some f) None = Inr (PASS, self', w')
        \<longrightarrow> (\<exists>w0 w1 t s.
               codecs_read E w0 f (cfg_encoding (self_config self)) = Some t
               \<and> config_get E w1 (Some f) (self_basepath self) (self_output self)
                    (fst (get_frontmatter_string E t)) = Inr s
               \<and> self_settings self' = Some s)"
  from claim critic_dump_sample_accept obtain w0 w1 t s where
    "codecs_read sample_env w0 ''a.md'' (cfg_encoding (self_config (sample_self 9))) = Some t"
    and "config_get sample_env w1 (Some ''a.md'') (self_basepath (sample_self 9))
           (self_output (sample_self 9)) (fst (get_frontmatter_string sample_env t)) = Inr s"
    and "self_settings ((sample_self 9)\<lparr>self_settings := Some (sample_settings None [])\<rparr>)
           = Some s"
    by blast
  then have "sample_settings None sample_frontmatter = sample_settings None []"
    by (simp add: sample_env_simps sample_self_simps)
  then show False
    by (simp add: sample_settings_def sample_frontmatter_def)
qed

text \<open>
  Claim C6, amended. \<^verbatim>\<open>critic_dump\<close> extracts no front matter. It resolves the settings
  first, from the file name and the empty front matter, then reads the file, and a dump
  that returns PASS has written the resolution of the whole text read (front matter
  included) to the destination of those settings. When the settings do not resolve, the
  file is not read: the only error logged is the traceback of that failure, whether the
  file can be read or not. \<^verbatim>\<open>get_frontmatter_string\<close> has no influence on the operation.
\<close>

theorem critic_dump_settings_without_frontmatter:
  "(Convert_critic_dump E self w file_name tx = Inr (PASS, self', w') \<longrightarrow>
      (\<exists>s t.
            config_get E (w @ [Enter_critic_dump file_name tx]) file_name
                (self_basepath self) (self_output self) [] = Inr s
            \<and> self' = self\<lparr>self_settings := Some s\<rparr>
            \<and> (case file_name of
                 Some f \<Rightarrow>
                   codecs_read E (w @ [Enter_critic_dump file_name tx]) f
                     (cfg_encoding (self_config self)) = Some t
               | None \<Rightarrow> tx = Some t)
            \<and> w' = w @ [Enter_critic_dump file_name tx,
                        Text_open (page_destination (fs_page s))
                          (cfg_output_encoding (self_config self)),
                        Text_write (CriticDump_dump E t
                          (cfg_critic (self_config self) AND CRITIC_ACCEPT)
                          (cfg_critic (self_config self) AND CRITIC_VIEW)),
                        Text_close]))
   \<and> (config_get E (w @ [Enter_critic_dump file_name tx]) file_name
          (self_basepath self) (self_output self) [] = Inl traceback \<longrightarrow>
        Convert_critic_dump E self w file_name tx
          = Inr (FAIL, self, w @ [Enter_critic_dump file_name tx, Log_error traceback]))
   \<and> Convert_critic_dump (E\<lparr>get_frontmatter_string := g\<rparr>) self w file_name tx
       = Convert_critic_dump E self w file_name tx"
proof (intro conjI impI)
  show "Convert_critic_dump (E\<lparr>get_frontmatter_string := g\<rparr>) self w file_name tx
                 = Convert_critic_dump E self w file_name tx"
    by (simp add: Convert_critic_dump_def Convert_get_file_settings_def
        Convert_read_file_def Let_def
        split: sum.splits option.splits prod.splits)
next
  assume "config_get E (w @ [Enter_critic_dump file_name tx]) file_name
          (self_basepath self) (self_output self) [] = Inl traceback"
  then show "Convert_critic_dump E self w file_name tx
          = Inr (FAIL, self, w @ [Enter_critic_dump file_name tx, Log_error traceback])"
    by (simp add: Convert_critic_dump_def Convert_get_file_settings_def Let_def
        split: option.splits)
next
  assume "Convert_critic_dump E self w file_name tx = Inr (PASS, self', w')"
  then show "\<exists>s t.
            config_get E (w @ [Enter_critic_dump file_name tx]) file_name
                (self_basepath self) (self_output self) [] = Inr s
            \<and> self' = self\<lparr>self_settings := Some s\<rparr>
            \<and> (case file_name of
                 Some f \<Rightarrow>
                   codecs_read E (w @ [Enter_critic_dump file_name tx]) f
                     (cfg_encoding (self_config self)) = Some t
               | None \<Rightarrow> tx = Some t)
            \<and> w' = w @ [Enter_critic_dump file_name tx,
                        Text_open (page_destination (fs_page s))
                          (cfg_output_encoding (self_config self)),
                        Text_write (CriticDump_dump E t
                          (cfg_critic (self_config self) AND CRITIC_ACCEPT)
                          (cfg_critic (self_config self) AND CRITIC_VIEW)),
                        Text_close]"
    by (auto simp: Convert_critic_dump_def Convert_get_file_settings_def
        Convert_read_file_def Let_def
        split: sum.splits option.splits if_splits)
qed

theorem critic_dump_settings_without_frontmatter_witness:
  "Convert_critic_dump sample_env (sample_self 9) [] (Some ''a.md'') None
     = Inr (PASS, (sample_self 9)\<lparr>self_settings := Some (sample_settings None [])\<rparr>,
         [Enter_critic_dump (Some ''a.md'') None, Text_open None ''utf-8'',
          Text_write sample_text, Text_close])
   \<and> fst (get_frontmatter_string sample_env sample_text) = sample_frontmatter
   \<and> config_get sample_env [Enter_critic_dump (Some ''a.md'') None] (Some ''a.md'')
         (self_basepath (sample_self 9)) (self_output (sample_self 9)) []
       = Inr (sample_settings None [])
   \<and> (\<forall>g. Convert_critic_dump (sample_env\<lparr>get_frontmatter_string := g\<rparr>) (sample_self 9) []
             (Some ''a.md'') None
           = Convert_critic_dump sample_env (sample_self 9) [] (Some ''a.md'') None)
   \<and> codecs_read (sample_env\<lparr>config_get := \<lambda>w file_name bp out fm. Inl ''KeyError''\<rparr>)
         [Enter_critic_dump (Some ''missing.md'') None] ''missing.md'' ''utf-8'' = None
   \<and> Convert_critic_dump
         (sample_env\<lparr>config_get := \<lambda>w file_name bp out fm. Inl ''KeyError''\<rparr>)
         (sample_self 9) [] (Some ''missing.md'') None
       = Inr (FAIL, sample_self 9,
           [Enter_critic_dump (Some ''missing.md'') None, Log_error ''KeyError''])"
  using critic_dump_settings_without_frontmatter
      [of sample_env "sample_self 9" "[]" "Some ''a.md''" None
         "(sample_self 9)\<lparr>self_settings := Some (sample_settings None [])\<rparr>"
         "[Enter_critic_dump (Some ''a.md'') None, Text_open None ''utf-8'',
           Text_write sample_text, Text_close]"]
    critic_dump_settings_without_frontmatter
      [of "sample_env\<lparr>config_get := \<lambda>w file_name bp out fm. Inl ''KeyError''\<rparr>"
         "sample_self 9" "[]" "Some ''missing.md''" None _ _ "''KeyError''"]
  by (simp add: critic_dump_sample_accept sample_env_simps sample_self_simps)

section \<open>The title\<close>

lemma rfind_split:
  assumes "c \<in> set s"
  shows "\<exists>pre post. s = pre @ c # post \<and> c \<notin> set post \<and> rfind c s = int (length pre)"
proof -
  let ?P = "\<lambda>x. x \<noteq> c"
  let ?tw = "takeWhile ?P (rev s)"
  let ?dw = "dropWhile ?P (rev s)"
  have "c \<in> set (rev s)" using assms by simp
  then have ne: "?dw \<noteq> []"
    by (metis (mono_tags, lifting) takeWhile_eq_all_conv dropWhile_eq_Nil_conv)
  then have hd: "hd ?dw = c"
    using hd_dropWhile[of ?P "rev s"] by simp
  from ne hd obtain dw' where dw: "?dw = c # dw'"
    by (cases ?dw) auto
  have "rev s = ?tw @ c # dw'"
    using takeWhile_dropWhile_id[of ?P "rev s"] dw by simp
  then have s: "s = rev dw' @ c # rev ?tw"
    by (metis rev_append rev_rev_ident rev.simps(2) append.assoc append_Cons append_Nil)
  have notin: "c \<notin> set (rev ?tw)"
    using set_takeWhileD[of c ?P "rev s"] by auto
  have "length s = length dw' + 1 + length ?tw"
    using arg_cong[OF s, of length] by simp
  then have "rfind c s = int (length (rev dw'))"
    using assms by (simp add: rfind_def)
  with s notin show ?thesis by blast
qed

lemma rfind_notin: "c \<notin> set s \<Longrightarrow> rfind c s = - 1"
  by (simp add: rfind_def)

lemma rfind_last:
  assumes "c \<notin> set post"
  shows "rfind c (pre @ c # post) = int (length pre)"
proof -
  have "takeWhile (\<lambda>x. x \<noteq> c) (rev post @ c # rev pre)
          = rev post @ takeWhile (\<lambda>x. x \<noteq> c) (c # rev pre)"
    by (rule takeWhile_append2) (use assms in auto)
  then show ?thesis by (simp add: rfind_def)
qed

lemma basename_last:
  assumes "CHR ''/'' \<notin> set name" and "r = '''' \<or> last r = CHR ''/''"
  shows "basename (r @ name) = name"
proof (cases "r = ''''")
  case True
  with assms(1) show ?thesis by (simp add: basename_def rfind_notin)
next
  case False
  with assms(2) obtain q where r: "r = q @ ''/''"
    by (metis append_butlast_last_id)
  have "rfind CHR ''/'' (q @ CHR ''/'' # name) = int (length q)"
    using assms(1) by (rule rfind_last)
  moreover have "nat (int (length q) + 1) = Suc (length q)"
    by simp
  ultimately show ?thesis by (simp add: basename_def r)
qed

lemma split_sep_not_Nil: "split_sep c xs \<noteq> []"
  by (induction xs) (auto split: list.splits)

lemma split_sep_notin: "c \<notin> set xs \<Longrightarrow> split_sep c xs = [xs]"
  by (induction xs) auto

lemma split_sep_append: "split_sep c (xs @ c # ys) = split_sep c xs @ split_sep c ys"
proof (induction xs)
  case Nil
  show ?case by simp
next
  case (Cons x xs)
  show ?case
  proof (cases "x = c")
    case True
    with Cons show ?thesis by simp
  next
    case False
    obtain y zs where "split_sep c xs = y # zs"
      using split_sep_not_Nil[of c xs] by (cases "split_sep c xs") auto
    with False Cons show ?thesis by simp
  qed
qed

lemma norm_comps_snoc:
  assumes "name \<noteq> ''''" "name \<noteq> ''.''" "name \<noteq> ''..''"
  shows "norm_comps ini acc (cs @ [name]) = norm_comps ini acc cs @ [name]"
  using assms by (induction cs arbitrary: acc) simp_all

lemma join_sep_snoc:
  "join_sep sep (xs @ [x]) = (if xs = [] then x else join_sep sep xs @ sep @ x)"
  by (induction sep xs rule: join_sep.induct) simp_all

lemma norm_comps_skip: "norm_comps ini acc (cs @ ['''']) = norm_comps ini acc cs"
  by (induction cs arbitrary: acc) simp_all

lemma normpath_last:
  assumes "CHR ''/'' \<notin> set name" and "name \<noteq> ''''" "name \<noteq> ''.''" "name \<noteq> ''..''"
    and "pre = '''' \<or> last pre = CHR ''/''" and "sl = '''' \<or> sl = ''/''"
  shows "\<exists>r. normpath (pre @ name @ sl) = r @ name \<and> (r = '''' \<or> last r = CHR ''/'')"
proof -
  define ini where "ini = initial_slashes (pre @ name @ sl)"
  obtain cs where cs: "split_sep CHR ''/'' (pre @ name) = cs @ [name]"
  proof (cases "pre = ''''")
    case True
    with assms(1) have "split_sep CHR ''/'' (pre @ name) = [] @ [name]"
      by (simp add: split_sep_notin)
    then show ?thesis by (rule that)
  next
    case False
    with assms(5) obtain q where "pre = q @ ''/''"
      by (metis append_butlast_last_id)
    then have "split_sep CHR ''/'' (pre @ name) = split_sep CHR ''/'' q @ [name]"
      using assms(1) split_sep_append[of "CHR ''/''" q name] by (simp add: split_sep_notin)
    then show ?thesis by (rule that)
  qed
  let ?xs = "norm_comps ini [] cs"
  let ?r = "(if ini \<noteq> 0 then replicate ini CHR ''/'' else '''')
              @ (if ?xs = [] then '''' else join_sep ''/'' ?xs @ ''/'')"
  have snoc: "norm_comps ini [] (cs @ [name]) = ?xs @ [name]"
    using assms(2-4) by (rule norm_comps_snoc)
  have comps: "norm_comps ini [] (split_sep CHR ''/'' (pre @ name @ sl)) = ?xs @ [name]"
  proof (cases "sl = ''''")
    case True
    with cs snoc show ?thesis by simp
  next
    case False
    with assms(6) have sl: "sl = ''/''" by simp
    have "split_sep CHR ''/'' ((pre @ name) @ CHR ''/'' # '''')
            = split_sep CHR ''/'' (pre @ name) @ split_sep CHR ''/'' ''''"
      by (rule split_sep_append)
    then have "split_sep CHR ''/'' (pre @ name @ sl) = (cs @ [name]) @ ['''']"
      by (simp add: sl cs)
    then show ?thesis
      by (simp only: norm_comps_skip snoc)
  qed
  have np: "normpath (pre @ name @ sl) =
              (let path = join_sep ''/''
                            (norm_comps ini [] (split_sep CHR ''/'' (pre @ name @ sl)));
                   path = (if ini \<noteq> 0 then replicate ini CHR ''/'' @ path else path)
               in if path = '''' then ''.'' else path)"
    using assms(2) unfolding normpath_def ini_def Let_def by simp
  have "normpath (pre @ name @ sl) = ?r @ name"
    unfolding np comps join_sep_snoc Let_def using assms(2) by auto
  moreover have "?r = '''' \<or> last ?r = CHR ''/''"
    by auto
  ultimately show ?thesis by blast
qed

lemma abspath_basename:
  assumes "CHR ''/'' \<notin> set name" and "name \<noteq> ''''" "name \<noteq> ''.''" "name \<noteq> ''..''"
    and "d = '''' \<or> last d = CHR ''/''" and "sl = '''' \<or> sl = ''/''"
  shows "basename (abspath cwd (d @ name @ sl)) = name"
proof -
  have "\<exists>pre. abspath cwd (d @ name @ sl) = normpath (pre @ name @ sl)
              \<and> (pre = '''' \<or> last pre = CHR ''/'')"
  proof (cases "startswith (d @ name @ sl) ''/''")
    case True
    with assms(5) show ?thesis
      by (intro exI[of _ d]) (simp add: abspath_def)
  next
    case False
    show ?thesis
    proof (cases "cwd = '''' \<or> endswith cwd ''/''")
      case True
      then have "cwd = '''' \<or> last cwd = CHR ''/''"
        by (auto simp: endswith_def last_drop dest: arg_cong[where f = last])
      with assms(5) have "cwd @ d = '''' \<or> last (cwd @ d) = CHR ''/''"
        by (auto simp: last_append)
      with True False show ?thesis
        by (intro exI[of _ "cwd @ d"]) (simp add: abspath_def path_join_def)
    next
      case nend: False
      from assms(5) have "last (cwd @ ''/'' @ d) = CHR ''/''"
        by (auto simp: last_append)
      with nend False show ?thesis
        by (intro exI[of _ "cwd @ ''/'' @ d"]) (simp add: abspath_def path_join_def)
    qed
  qed
  then obtain pre where a: "abspath cwd (d @ name @ sl) = normpath (pre @ name @ sl)"
    and pre: "pre = '''' \<or> last pre = CHR ''/''"
    by blast
  from normpath_last[OF assms(1-4) pre assms(6)] obtain r where
    "normpath (pre @ name @ sl) = r @ name" "r = '''' \<or> last r = CHR ''/''"
    by blast
  with a assms(1) show ?thesis by (simp add: basename_last)
qed

lemma splitext_ext:
  assumes "CHR ''/'' \<notin> set stem" "CHR ''/'' \<notin> set ext" "CHR ''.'' \<notin> set ext"
    and "\<exists>c \<in> set stem. c \<noteq> CHR ''.''"
  shows "splitext (stem @ ''.'' @ ext) = (stem, ''.'' @ ext)"
proof -
  let ?p = "stem @ CHR ''.'' # ext"
  have sep: "rfind CHR ''/'' ?p = - 1"
    using assms(1,2) by (simp add: rfind_notin)
  have dot: "rfind CHR ''.'' ?p = int (length stem)"
    using assms(3) by (rule rfind_last)
  from assms(4) obtain k where k: "k < length stem" "stem ! k \<noteq> CHR ''.''"
    by (auto simp: in_set_conv_nth)
  then have "?p ! k \<noteq> CHR ''.''" by (simp add: nth_append)
  with k have "list_ex (\<lambda>k. ?p ! k \<noteq> CHR ''.'') [0 ..< length stem]"
    by (auto simp: list_ex_iff)
  then show ?thesis
    by (simp add: splitext_def sep dot Let_def)
qed

lemma splitext_no_ext:
  assumes "CHR ''/'' \<notin> set dots" "CHR ''/'' \<notin> set rest"
    and "set dots \<subseteq> {CHR ''.''}" and "CHR ''.'' \<notin> set rest"
  shows "splitext (dots @ rest) = (dots @ rest, '''')"
proof (cases "dots = ''''")
  case True
  with assms(4) show ?thesis by (simp add: splitext_def rfind_notin Let_def)
next
  case False
  then obtain q where q: "dots = q @ ''.''"
    using assms(3) by (metis append_butlast_last_id last_in_set singletonD subsetD)
  let ?p = "q @ CHR ''.'' # rest"
  have dot: "rfind CHR ''.'' ?p = int (length q)"
    using assms(4) by (rule rfind_last)
  have "set q \<subseteq> {CHR ''.''}"
    using assms(3) by (simp add: q)
  then have "\<forall>k < length q. q ! k = CHR ''.''"
    using nth_mem by fastforce
  then have "\<not> list_ex (\<lambda>k. ?p ! k \<noteq> CHR ''.'') [0 ..< length q]"
    by (auto simp: list_ex_iff nth_append)
  moreover have "rfind CHR ''/'' ?p = - 1"
    using assms(1,2) by (simp add: rfind_notin q)
  ultimately show ?thesis
    by (simp add: splitext_def dot Let_def q)
qed

text \<open>
  Claim C7. An explicit title is the title, and without a title and without a file
  name (the document came from the stream) the title is \<^verbatim>\<open>None\<close>. Without an explicit
  title, a document whose file name ends in the component \<open>name\<close> (a name, not \<^verbatim>\<open>.\<close> or
  \<^verbatim>\<open>..\<close>, after a directory part \<open>d\<close> that is empty or ends with a slash, and with or
  without a slash \<open>sl\<close> after it) gets the stem of \<open>name\<close>, whatever the directory part
  and the working directory are: the base name of its absolute path is \<open>name\<close>; when
  \<open>name\<close> is \<open>stem.ext\<close> with no dot in \<open>ext\<close> and a character other than the dot in
  \<open>stem\<close>, the title is \<open>stem\<close>, the extension \<open>.ext\<close> removed; and when \<open>name\<close> has no dot
  after its leading dots, it has no extension and the title is \<open>name\<close>.
\<close>

theorem get_title_cases:
  assumes "CHR ''/'' \<notin> set name" and "name \<noteq> ''''" "name \<noteq> ''.''" "name \<noteq> ''..''"
    and "d = '''' \<or> last d = CHR ''/''" and "sl = '''' \<or> sl = ''/''"
  shows "get_title cwd file_name (Some t) = Some t
       \<and> get_title cwd None None = None
       \<and> basename (abspath cwd (d @ name @ sl)) = name
       \<and> (name = stem @ ''.'' @ ext \<and> CHR ''.'' \<notin> set ext \<and> (\<exists>c \<in> set stem. c \<noteq> CHR ''.'')
            \<longrightarrow> splitext name = (stem, ''.'' @ ext)
              \<and> get_title cwd (Some (d @ name @ sl)) None = Some stem)
       \<and> (name = dots @ rest \<and> set dots \<subseteq> {CHR ''.''} \<and> CHR ''.'' \<notin> set rest
            \<longrightarrow> splitext name = (name, '''')
              \<and> get_title cwd (Some (d @ name @ sl)) None = Some name)"
proof -
  have b: "basename (abspath cwd (d @ name @ sl)) = name"
    using assms by (rule abspath_basename)
  have "splitext name = (stem, ''.'' @ ext)
          \<and> get_title cwd (Some (d @ name @ sl)) None = Some stem"
    if "name = stem @ ''.'' @ ext" "CHR ''.'' \<notin> set ext" "\<exists>c \<in> set stem. c \<noteq> CHR ''.''"
  proof -
    have "splitext (stem @ ''.'' @ ext) = (stem, ''.'' @ ext)"
      using assms(1) that by (intro splitext_ext) simp_all
    with that(1) b show ?thesis by (simp add: get_title_def)
  qed
  moreover have "splitext name = (name, '''')
          \<and> get_title cwd (Some (d @ name @ sl)) None = Some name"
    if "name = dots @ rest" "set dots \<subseteq> {CHR ''.''}" "CHR ''.'' \<notin> set rest"
  proof -
    have "splitext (dots @ rest) = (dots @ rest, '''')"
      using assms(1) that by (intro splitext_no_ext) simp_all
    with that(1) b show ?thesis by (simp add: get_title_def)
  qed
  ultimately show ?thesis
    using b by (simp add: get_title_def)
qed

theorem get_title_cases_witness:
  "get_title ''/home/u'' (Some ''docs/readme.tar.md'') None = Some ''readme.tar''
   \<and> basename (abspath ''/home/u'' ''docs/readme.tar.md'') = ''readme.tar.md''
   \<and> splitext ''readme.tar.md'' = (''readme.tar'', ''.md'')
   \<and> get_title ''/home/u'' (Some ''/srv/.hidden/'') None = Some ''.hidden''
   \<and> get_title ''/home/u'' (Some ''notes.md'') (Some ''Custom'') = Some ''Custom''
   \<and> get_title ''/home/u'' None None = None"
  using get_title_cases [of "''readme.tar.md''" "''docs/''" "''''" "''/home/u''"
      "Some ''notes.md''" "''Custom''" "''readme.tar''" "''md''" "''''" "''readme.tar.md''"]
    get_title_cases [of "''.hidden''" "''/srv/''" "''/''" "''/home/u''"
      None "''Custom''" "''''" "''hidden''" "''.''" "''hidden''"]
  by simp

lemma get_title_examples:
  "get_title ''/home/u'' (Some ''docs/readme.tar.md'') None = Some ''readme.tar''"
  "get_title ''/home/u'' (Some ''docs/.hidden'') None = Some ''.hidden''"
  "get_title ''/home/u'' (Some ''/srv/notes.md'') None = Some ''notes''"
  "get_title ''/home/u'' (Some ''../a/./b/notes.md'') None = Some ''notes''"
  "get_title ''/home/u'' (Some ''Makefile'') None = Some ''Makefile''"
  "get_title ''/home/u'' (Some ''docs/notes.md/'') None = Some ''notes''"
  "get_title ''/home/u'' (Some ''..'') None = Some ''home''"
  "get_title ''/home/u'' (Some ''notes.md'') (Some ''Custom'') = Some ''Custom''"
  by code_simp+

section \<open>References\<close>

lemma get_references_loop_append:
  "get_references_loop E basepath tx encoding w (pre @ post) =
     (case get_references_loop E basepath tx encoding w pre of
        Inl e \<Rightarrow> Inl e
      | Inr (t, w') \<Rightarrow>
          get_references_loop E basepath t (enc_after E encoding pre) w' post)"
proof (induction pre arbitrary: tx encoding w)
  case Nil
  show ?case by simp
next
  case (Cons entry pre)
  show ?case
    by (cases "splitenc E entry encoding")
       (auto simp: Cons.IH split: option.splits sum.splits)
qed

lemma get_references_loop_missing:
  assumes "splitenc E entry encoding = (name, enc1)"
    and "ref_path E w basepath name = None"
  shows "get_references_loop E basepath tx encoding w (entry # post) =
           get_references_loop E basepath tx enc1
             (w @ [Log_error (''Could not find reference file '' @ name @ ''!'')]) post"
  using assms by simp

lemma html_dump_args_settings:
  "html_dump_args (self\<lparr>self_settings := x\<rparr>) s = html_dump_args self s"
  "html_dump_md_args (self\<lparr>self_settings := x\<rparr>) s hn tx = html_dump_md_args self s hn tx"
  by (simp_all add: html_dump_args_def html_dump_md_args_def split: option.splits)

lemma ref_path_relative:
  assumes "\<not> is_absolute E file_name"
  shows "ref_path E w basepath file_name =
           (if (case basepath of
                  Some b \<Rightarrow> is_regular_file E w (normpath (path_join b file_name))
                | None \<Rightarrow> False)
            then map_option (\<lambda>b. normpath (path_join b file_name)) basepath
            else if is_regular_file E w
                      (normpath (path_join (path_join (get_user_path E) file_name) file_name))
            then Some (normpath (path_join (path_join (get_user_path E) file_name) file_name))
            else None)"
  using assms by (cases basepath) (simp_all add: ref_path_def Let_def)

text \<open>
  Claim C4, at a concrete input. The entry \<^verbatim>\<open>refs.md\<close> is relative, there is no
  \<^verbatim>\<open>/doc/refs.md\<close> under the base path \<^verbatim>\<open>/doc\<close>, and the user directory \<^verbatim>\<open>/u\<close> joined with
  the entry's name is the regular file \<^verbatim>\<open>/u/refs.md\<close>, which can be loaded. The claim has
  its contents included. \<^verbatim>\<open>get_references\<close> joins the name to the user directory twice
  (\<^verbatim>\<open>user_path\<close> already ends with it when \<^verbatim>\<open>user_temp\<close> is built), tests
  \<^verbatim>\<open>/u/refs.md/refs.md\<close>, finds nothing, logs the error and includes nothing.
\<close>

theorem get_references_user_path_sample:
  "is_absolute sample_env ''refs.md'' = False
   \<and> is_regular_file sample_env [] (normpath (path_join ''/doc'' ''refs.md'')) = False
   \<and> path_join (get_user_path sample_env) ''refs.md'' = ''/u/refs.md''
   \<and> is_regular_file sample_env [] ''/u/refs.md'' = True
   \<and> load_text_resource sample_env [] ''/u/refs.md'' ''utf-8'' = Some ''[ref]: x''
   \<and> normpath (path_join (path_join (get_user_path sample_env) ''refs.md'') ''refs.md'')
        = ''/u/refs.md/refs.md''
   \<and> ref_path sample_env [] (Some ''/doc'') ''refs.md'' = None
   \<and> get_references sample_env [] [''refs.md''] (Some ''/doc'') ''utf-8''
        = Inr ('''', [Log_error ''Could not find reference file refs.md!''])"
  by (simp add: ref_path_sample_refs get_references_sample[of "[]", simplified]
      is_regular_file_def sample_env_simps path_join_def
      startswith_def endswith_def normpath_def initial_slashes_def)

text \<open>
  Claim C5. A document whose reference list is \<open>pre @ entry # post\<close>, where the loop
  reaches \<open>entry\<close> with the text \<open>t1\<close> and finds no file for it: the loop goes on
  through \<open>post\<close> from the same text \<open>t1\<close> (the entry has added nothing to it), having
  logged the error that names the entry. When the steps of \<^verbatim>\<open>html_dump\<close> that can fail
  succeed (the file is read, the settings resolve, the remaining entries load, the
  \<^verbatim>\<open>Html\<close> object is created and the engine converts), \<^verbatim>\<open>html_dump\<close> returns PASS: it
  has converted the text with the other references appended and written the result.
\<close>

theorem reference_not_found_recoverable:
  assumes a_read:
      "(case file_name of
          Some f \<Rightarrow> codecs_read E (w @ [Enter_html_dump file_name tx]) f
                      (cfg_encoding (self_config self))
        | None \<Rightarrow> tx) = Some t"
    and a_fm: "get_frontmatter_string E t = (fm, body)"
    and a_cfg: "config_get E (w @ [Enter_html_dump file_name tx]) file_name
                  (self_basepath self) (self_output self) fm = Inr s"
    and a_refs: "dict_get (page_references (fs_page s)) [] = pre @ entry # post"
    and a_pre: "get_references_loop E (page_basepath (fs_page s)) ''''
                  (cfg_encoding (self_config self)) (w @ [Enter_html_dump file_name tx]) pre
                = Inr (t1, w1)"
    and a_split: "splitenc E entry (enc_after E (cfg_encoding (self_config self)) pre)
                = (name, enc1)"
    and a_missing: "ref_path E w1 (page_basepath (fs_page s)) name = None"
    and a_post: "get_references_loop E (page_basepath (fs_page s)) t1 enc1
                   (w1 @ [Log_error (''Could not find reference file '' @ name @ ''!'')]) post
                = Inr (ref_text, w2)"
    and a_html: "new_Html E w2 (html_dump_args self s) = Inr hn"
    and a_md: "MdConverts E (w2 @ [Html_open (html_dump_args self s)])
                 (html_dump_md_args self s hn (body @ ref_text)) = Inr converter"
  shows "get_references E (w @ [Enter_html_dump file_name tx]) (pre @ entry # post)
           (page_basepath (fs_page s)) (cfg_encoding (self_config self))
         = get_references_loop E (page_basepath (fs_page s)) t1 enc1
             (w1 @ [Log_error (''Could not find reference file '' @ name @ ''!'')]) post
       \<and> (\<exists>w'. Convert_html_dump E self w file_name tx
                  = Inr (PASS, self\<lparr>self_settings := Some s\<rparr>, w')
               \<and> take (length w2) w' = w2
               \<and> Html_write (if cfg_clean (self_config self)
                             then scrub E (markdown converter) else markdown converter)
                   \<in> set w')"
proof -
  let ?w0 = "w @ [Enter_html_dump file_name tx]"
  let ?bp = "page_basepath (fs_page s)"
  let ?enc = "cfg_encoding (self_config self)"
  let ?err = "Log_error (''Could not find reference file '' @ name @ ''!'')"
  have loop: "get_references E ?w0 (pre @ entry # post) ?bp ?enc
                = get_references_loop E ?bp t1 enc1 (w1 @ [?err]) post"
    unfolding get_references_def get_references_loop_append
    using a_pre get_references_loop_missing[OF a_split a_missing]
    by simp
  then have refs: "get_references E ?w0 (dict_get (page_references (fs_page s)) []) ?bp ?enc
                = Inr (ref_text, w2)"
    using a_refs a_post by simp
  have dump: "\<exists>w'. Convert_html_dump E self w file_name tx
                  = Inr (PASS, self\<lparr>self_settings := Some s\<rparr>, w')
               \<and> take (length w2) w' = w2
               \<and> Html_write (if cfg_clean (self_config self)
                             then scrub E (markdown converter) else markdown converter)
                   \<in> set w'"
  proof (cases file_name)
    case None
    with a_read a_fm a_cfg refs a_html a_md show ?thesis
      by (auto simp: Convert_html_dump_def Convert_get_file_settings_def Let_def
          html_dump_args_settings split: option.splits)
  next
    case (Some f)
    with a_read a_fm a_cfg refs a_html a_md show ?thesis
      by (auto simp: Convert_html_dump_def Convert_read_file_def Convert_get_file_settings_def
          Let_def html_dump_args_settings split: option.splits)
  qed
  from loop dump show ?thesis by simp
qed

theorem reference_not_found_recoverable_witness:
  "get_references sample_env [Enter_html_dump (Some ''a.md'') None]
      [''notes.md'', ''refs.md'', ''notes.md''] (Some ''/doc'') ''utf-8''
     = Inr (''[n]: y[n]: y'',
         [Enter_html_dump (Some ''a.md'') None,
          Log_error ''Could not find reference file refs.md!''])
   \<and> (\<exists>w'. Convert_html_dump sample_env (sample_self 0) [] (Some ''a.md'') None
              = Inr (PASS,
                  (sample_self 0)\<lparr>self_settings :=
                     Some (sample_settings None sample_frontmatter)\<rparr>, w')
           \<and> take 2 w' = [Enter_html_dump (Some ''a.md'') None,
                           Log_error ''Could not find reference file refs.md!'']
           \<and> Html_write ''<p>{++new++}[n]: y[n]: y</p>'' \<in> set w')"
proof -
  let ?w0 = "[] @ [Enter_html_dump (Some ''a.md'') None]"
  let ?s = "sample_settings None sample_frontmatter"
  let ?err = "Log_error (''Could not find reference file '' @ ''refs.md'' @ ''!'')"
  let ?c = "\<lparr>markdown = ''<p>{++new++}[n]: y[n]: y</p>'',
             md_meta = [''author'' \<mapsto> MStr ''Engine'']\<rparr>"
  have bp: "page_basepath (fs_page ?s) = Some ''/doc''"
    and refs: "dict_get (page_references (fs_page ?s)) []
                 = [''notes.md''] @ ''refs.md'' # [''notes.md'']"
    by (simp_all add: sample_settings_def dict_get_def)
  have a_read: "(case Some ''a.md'' of
                   Some f \<Rightarrow> codecs_read sample_env ?w0 f
                               (cfg_encoding (self_config (sample_self 0)))
                 | None \<Rightarrow> None) = Some sample_text"
    by (simp add: sample_env_simps)
  have a_fm: "get_frontmatter_string sample_env sample_text
                = (sample_frontmatter, ''{++new++}'')"
    by (simp add: sample_env_simps)
  have a_cfg: "config_get sample_env ?w0 (Some ''a.md'') (self_basepath (sample_self 0))
                 (self_output (sample_self 0)) sample_frontmatter = Inr ?s"
    by (simp add: sample_env_simps sample_self_simps)
  have a_pre: "get_references_loop sample_env (page_basepath (fs_page ?s)) ''''
                 (cfg_encoding (self_config (sample_self 0))) ?w0 [''notes.md'']
               = Inr (''[n]: y'', ?w0)"
    by (simp add: bp ref_path_sample_notes sample_env_simps)
  have a_split: "splitenc sample_env ''refs.md''
                   (enc_after sample_env (cfg_encoding (self_config (sample_self 0)))
                      [''notes.md''])
                 = (''refs.md'', ''utf-8'')"
    by (simp add: sample_env_simps sample_self_simps)
  have a_missing: "ref_path sample_env ?w0 (page_basepath (fs_page ?s)) ''refs.md'' = None"
    by (simp only: bp ref_path_sample_refs)
  have a_post: "get_references_loop sample_env (page_basepath (fs_page ?s)) ''[n]: y''
                  ''utf-8'' (?w0 @ [?err]) [''notes.md'']
                = Inr (''[n]: y[n]: y'', ?w0 @ [?err])"
    by (simp add: bp ref_path_sample_notes sample_env_simps)
  have a_html: "new_Html sample_env (?w0 @ [?err]) (html_dump_args (sample_self 0) ?s)
                  = Inr (Some ''out.md'')"
    by (simp add: sample_env_simps html_dump_args_def sample_settings_def
        sample_frontmatter_def)
  have a_md: "MdConverts sample_env
                ((?w0 @ [?err]) @ [Html_open (html_dump_args (sample_self 0) ?s)])
                (html_dump_md_args (sample_self 0) ?s (Some ''out.md'')
                   (''{++new++}'' @ ''[n]: y[n]: y'')) = Inr ?c"
    by (simp add: sample_env_simps html_dump_md_args_def)
  from reference_not_found_recoverable
         [OF a_read a_fm a_cfg refs a_pre a_split a_missing a_post a_html a_md]
  show ?thesis
    by (simp add: bp sample_self_simps sample_env_simps ref_path_sample_notes
        numeral_2_eq_2)
qed

section \<open>Metadata\<close>

lemma merge_meta_key:
  "merge_meta meta1 meta2 title k =
     (case meta2 k of
        Some v \<Rightarrow> Some v
      | None \<Rightarrow>
          (case meta1 k of
             Some v \<Rightarrow> Some v
           | None \<Rightarrow> if k = ''title'' then title else None))"
  by (auto simp: merge_meta_def Let_def map_add_def dom_def split: option.splits)

lemma html_dump_PASS:
  assumes "Convert_html_dump E self w file_name tx = Inr (PASS, self', w')"
  shows "\<exists>t fm body w1 s ww ma converter.
           (case file_name of
              Some f \<Rightarrow> codecs_read E (w @ [Enter_html_dump file_name tx]) f
                          (cfg_encoding (self_config self)) = Some t
            | None \<Rightarrow> tx = Some t)
           \<and> get_frontmatter_string E t = (fm, body)
           \<and> config_get E w1 file_name (self_basepath self) (self_output self) fm = Inr s
           \<and> self_settings self' = Some s
           \<and> MdConverts E ww ma = Inr converter
           \<and> Html_set_meta
                (merge_meta (md_meta converter) (page_meta (fs_page s))
                   (map_option MStr (get_title (getcwd E) file_name (self_title self))))
                \<in> set w'"
  using assms
  apply (simp add: Convert_html_dump_def Convert_read_file_def Convert_get_file_settings_def
      Let_def split: option.splits if_splits prod.splits sum.splits)
   apply (clarsimp split: option.splits if_splits; (rule conjI, blast, (rule exI)+, rule conjI, assumption, simp))+
  done

lemma html_dump_sample_a:
  "Convert_html_dump sample_env (sample_self 0) [] (Some ''a.md'') None
     = Inr (PASS,
         (sample_self 0)\<lparr>self_settings := Some (sample_settings None sample_frontmatter)\<rparr>,
         [Enter_html_dump (Some ''a.md'') None,
          Log_error ''Could not find reference file refs.md!'',
          Html_open (html_dump_args (sample_self 0) (sample_settings None sample_frontmatter)),
          Html_set_meta
            (merge_meta [''author'' \<mapsto> MStr ''Engine''] (map_of sample_frontmatter)
               (map_option MStr (get_title ''/doc'' (Some ''a.md'') None))),
          Html_write ''<p>{++new++}[n]: y[n]: y</p>'',
          Html_close])"
  by (simp add: Convert_html_dump_def Convert_read_file_def
      Convert_get_file_settings_def get_references_sample_list
      dict_get_def sample_self_simps sample_env_simps Let_def html_dump_args_def
      html_dump_md_args_def sample_settings_def sample_frontmatter_def)

text \<open>
  Claim C2, as the spec states it: in the metadata that the render branch sets, a key
  that the engine emitted has the engine's value. It has not when the front matter
  holds the key too: \<^verbatim>\<open>html_dump\<close> passes the engine's metadata as \<^verbatim>\<open>meta1\<close> and the
  front-matter metadata as \<^verbatim>\<open>meta2\<close>, and \<^verbatim>\<open>merge_meta\<close> updates a copy of \<^verbatim>\<open>meta1\<close>
  with \<^verbatim>\<open>meta2\<close>.
\<close>

theorem html_dump_meta_counterexample:
  "\<not> (\<forall>E self w file_name tx self' w' m.
        Convert_html_dump E self w file_name tx = Inr (PASS, self', w')
        \<and> Html_set_meta m \<in> set w'
        \<longrightarrow> (\<forall>ww ma converter k v.
               MdConverts E ww ma = Inr converter \<and> md_meta converter k = Some v
               \<longrightarrow> m k = Some v))"
proof
  assume claim: "\<forall>E self w file_name tx self' w' m.
        Convert_html_dump E self w file_name tx = Inr (PASS, self', w')
        \<and> Html_set_meta m \<in> set w'
        \<longrightarrow> (\<forall>ww ma converter k v.
               MdConverts E ww ma = Inr converter \<and> md_meta converter k = Some v
               \<longrightarrow> m k = Some v)"
  let ?m = "merge_meta [''author'' \<mapsto> MStr ''Engine''] (map_of sample_frontmatter)
              (map_option MStr (get_title ''/doc'' (Some ''a.md'') None))"
  let ?ma = "html_dump_md_args (sample_self 0) (sample_settings None []) None ''''"
  let ?c = "\<lparr>markdown = ''<p>'' @ md_text ?ma @ ''</p>'',
             md_meta = [''author'' \<mapsto> MStr ''Engine'']\<rparr>"
  have set: "Html_set_meta ?m \<in> set
      [Enter_html_dump (Some ''a.md'') None,
       Log_error ''Could not find reference file refs.md!'',
       Html_open (html_dump_args (sample_self 0) (sample_settings None sample_frontmatter)),
       Html_set_meta ?m, Html_write ''<p>{++new++}[n]: y[n]: y</p>'', Html_close]"
    by simp
  have conv: "MdConverts sample_env [] ?ma = Inr ?c"
    by (simp add: sample_env_simps)
  have key: "md_meta ?c ''author'' = Some (MStr ''Engine'')"
    by simp
  from claim html_dump_sample_a set conv key
  have "?m ''author'' = Some (MStr ''Engine'')"
    by blast
  then show False
    by (simp add: merge_meta_key sample_frontmatter_def)
qed

text \<open>
  Claim C2, amended. When \<^verbatim>\<open>html_dump\<close> returns PASS it has set the metadata
  \<^verbatim>\<open>merge_meta(converter.meta, self.settings["page"]["meta"], title=html_title)\<close>, where
  the settings are those resolved with the front matter of the document: key by key,
  the value of the front-matter metadata if it has the key, else the value of the
  engine's metadata if that has the key (whole values, never merged), and for the key
  \<^verbatim>\<open>title\<close>, when neither has it, the derived title if there is one.
\<close>

theorem html_dump_meta:
  assumes "Convert_html_dump E self w file_name tx = Inr (PASS, self', w')"
  shows "\<exists>t fm body w1 s ww ma converter m.
           (case file_name of
              Some f \<Rightarrow> codecs_read E (w @ [Enter_html_dump file_name tx]) f
                          (cfg_encoding (self_config self)) = Some t
            | None \<Rightarrow> tx = Some t)
           \<and> get_frontmatter_string E t = (fm, body)
           \<and> config_get E w1 file_name (self_basepath self) (self_output self) fm = Inr s
           \<and> self_settings self' = Some s
           \<and> MdConverts E ww ma = Inr converter
           \<and> Html_set_meta m \<in> set w'
           \<and> (\<forall>k. m k =
                 (case page_meta (fs_page s) k of
                    Some v \<Rightarrow> Some v
                  | None \<Rightarrow>
                      (case md_meta converter k of
                         Some v \<Rightarrow> Some v
                       | None \<Rightarrow>
                           if k = ''title''
                           then map_option MStr
                                  (get_title (getcwd E) file_name (self_title self))
                           else None)))"
proof -
  from html_dump_PASS[OF assms] obtain t fm body w1 s ww ma converter where
    h: "(case file_name of
              Some f \<Rightarrow> codecs_read E (w @ [Enter_html_dump file_name tx]) f
                          (cfg_encoding (self_config self)) = Some t
            | None \<Rightarrow> tx = Some t)"
      "get_frontmatter_string E t = (fm, body)"
      "config_get E w1 file_name (self_basepath self) (self_output self) fm = Inr s"
      "self_settings self' = Some s"
      "MdConverts E ww ma = Inr converter"
      "Html_set_meta
         (merge_meta (md_meta converter) (page_meta (fs_page s))
            (map_option MStr (get_title (getcwd E) file_name (self_title self))))
         \<in> set w'"
    by blast
  show ?thesis
    apply (rule exI[of _ t], rule exI[of _ fm], rule exI[of _ body], rule exI[of _ w1])
    apply (rule exI[of _ s], rule exI[of _ ww], rule exI[of _ ma], rule exI[of _ converter])
    apply (rule exI[of _ "merge_meta (md_meta converter) (page_meta (fs_page s))
            (map_option MStr (get_title (getcwd E) file_name (self_title self)))"])
    using h by (simp add: merge_meta_key)
qed

theorem html_dump_meta_witness:
  "(\<exists>self' w'.
      Convert_html_dump sample_env (sample_self 0) [] (Some ''a.md'') None
        = Inr (PASS, self', w')
      \<and> (\<exists>m. Html_set_meta m \<in> set w'
            \<and> m ''author'' = Some (MStr ''Front'')
            \<and> m ''destination'' = Some (MStr ''out.md'')
            \<and> m ''title'' = Some (MStr ''a'')
            \<and> m ''date'' = None))
   \<and> merge_meta [''author'' \<mapsto> MStr ''Engine'', ''title'' \<mapsto> MStr ''T'']
        [''author'' \<mapsto> MStr ''Front''] (Some (MStr ''a'')) ''title'' = Some (MStr ''T'')"
proof -
  have title: "get_title ''/doc'' (Some ''a.md'') None = Some ''a''"
    by code_simp
  from html_dump_meta[OF html_dump_sample_a] html_dump_sample_a
  show ?thesis
    by (simp add: merge_meta_key sample_frontmatter_def title)
qed

section \<open>The smart patterns\<close>

















end
